theory Spec2Isabelle
  imports Complex_Main "HOL-Library.Word"
begin

section \<open>Motion generators of panda-py: data model\<close>

text \<open>
  The two generators (\<^verbatim>\<open>JointMotionGenerator\<close> and \<^verbatim>\<open>CartesianMotionGenerator\<close>) are
  embedded with explicit state passing. A C++ \<^verbatim>\<open>double\<close> is read as a \<^typ>\<open>real\<close>
  (rounding is not modelled), a \<^verbatim>\<open>std::array<double, n>\<close> as a list of reals, the
  \<^verbatim>\<open>std::queue\<close> of waypoints as a list whose head is the front. Member names lose their
  trailing underscore (\<^verbatim>\<open>reload_\<close> is \<open>reload\<close>), which Isabelle does not accept in a name.
  Every member function runs atomically: the mutex is not modelled, only the
  interleaving of whole calls.
\<close>

type_synonym vec7 = "real list"

text \<open>\<^verbatim>\<open>toStd(Vector7d::Zero())\<close>\<close>

definition zero7 :: vec7 where
  "zero7 = replicate 7 0"

subsection \<open>External types: libfranka, ruckig, Eigen\<close>

text \<open>\<^verbatim>\<open>franka::RobotState\<close>, the members the generators read. \<open>q\<close> is the measured joint
  position, \<open>q_d\<close> the commanded one; \<open>O_T_EE\<close> is the measured end-effector pose and
  \<open>O_T_EE_c\<close> the commanded one, both 4x4 matrices stored column-major in 16 doubles.\<close>

record RobotState =
  q :: vec7
  q_d :: vec7
  O_T_EE :: "real list"
  O_T_EE_c :: "real list"

text \<open>\<^verbatim>\<open>franka::Duration\<close> counts milliseconds in a \<^verbatim>\<open>uint64_t\<close>.\<close>

type_synonym Duration = "64 word"

definition toMSec :: "Duration \<Rightarrow> 64 word" where
  "toMSec period = period"

definition toSec :: "Duration \<Rightarrow> real" where
  "toSec period = real (unat period) / 1000"

text \<open>\<^verbatim>\<open>franka::MotionFinished(cmd)\<close> returns \<open>cmd\<close> with its \<^verbatim>\<open>motion_finished\<close> flag set;
  a command built by the plain constructor has the flag cleared.\<close>

datatype 'c Finishable = Command 'c | MotionFinished 'c

fun is_motion_finished :: "'c Finishable \<Rightarrow> bool" where
  "is_motion_finished (Command c) = False"
| "is_motion_finished (MotionFinished c) = True"

text \<open>\<^verbatim>\<open>ruckig::Result\<close> of ruckig 0.14 (the version pinned in \<^verbatim>\<open>pixi.lock\<close>).\<close>

datatype Result =
    Working
  | Finished
  | Error
  | ErrorInvalidInput
  | ErrorTrajectoryDuration
  | ErrorPositionalLimits
  | ErrorZeroLimits
  | ErrorExecutionTimeCalculation
  | ErrorSynchronizationCalculation

text \<open>\<^verbatim>\<open>ruckig::InputParameter<7>\<close> and \<^verbatim>\<open>ruckig::OutputParameter<7>\<close>, the members the
  generators touch.\<close>

record InputParameter =
  current_position :: vec7
  current_velocity :: vec7
  current_acceleration :: vec7
  target_position :: vec7
  target_velocity :: vec7
  target_acceleration :: vec7
  max_velocity :: vec7
  max_acceleration :: vec7
  max_jerk :: vec7

record OutputParameter =
  new_position :: vec7
  new_velocity :: vec7
  new_acceleration :: vec7

text \<open>\<^verbatim>\<open>OutputParameter::pass_to_input\<close>\<close>

definition pass_to_input :: "OutputParameter \<Rightarrow> InputParameter \<Rightarrow> InputParameter" where
  "pass_to_input out inp =
     inp\<lparr>current_position := new_position out,
         current_velocity := new_velocity out,
         current_acceleration := new_acceleration out\<rparr>"

text \<open>The solver \<^verbatim>\<open>Ruckig::update(input, output)\<close> is a black box: any function from the
  solver object's own state \<open>'s\<close>, the input block and the previous output block to a
  result, the next solver state and the new output block.\<close>

type_synonym 's otg =
  "'s \<Rightarrow> InputParameter \<Rightarrow> OutputParameter \<Rightarrow> Result \<times> 's \<times> OutputParameter"

text \<open>\<^verbatim>\<open>Eigen::Isometry3d\<close>: a linear part (3x3, by rows) and a translation. The product is
  Eigen's product of two isometries.\<close>

type_synonym vec3 = "real \<times> real \<times> real"
type_synonym mat3 = "vec3 \<times> vec3 \<times> vec3"
type_synonym quat = "real \<times> real \<times> real \<times> real"

record Isometry3d =
  linear :: mat3
  translation :: vec3

fun mat_vec :: "mat3 \<Rightarrow> vec3 \<Rightarrow> vec3" where
  "mat_vec ((a11, a12, a13), (a21, a22, a23), (a31, a32, a33)) (x, y, z) =
     (a11 * x + a12 * y + a13 * z,
      a21 * x + a22 * y + a23 * z,
      a31 * x + a32 * y + a33 * z)"

fun mat_mat :: "mat3 \<Rightarrow> mat3 \<Rightarrow> mat3" where
  "mat_mat A ((b11, b12, b13), (b21, b22, b23), (b31, b32, b33)) =
     (case (mat_vec A (b11, b21, b31), mat_vec A (b12, b22, b32), mat_vec A (b13, b23, b33)) of
        ((c11, c21, c31), (c12, c22, c32), (c13, c23, c33)) \<Rightarrow>
          ((c11, c12, c13), (c21, c22, c23), (c31, c32, c33)))"

fun vec_add :: "vec3 \<Rightarrow> vec3 \<Rightarrow> vec3" where
  "vec_add (x1, y1, z1) (x2, y2, z2) = (x1 + x2, y1 + y2, z1 + z2)"

definition compose :: "Isometry3d \<Rightarrow> Isometry3d \<Rightarrow> Isometry3d" where
  "compose X Y =
     \<lparr>linear = mat_mat (linear X) (linear Y),
      translation = vec_add (mat_vec (linear X) (translation Y)) (translation X)\<rparr>"

text \<open>\<^verbatim>\<open>Eigen::Isometry3d(Eigen::Matrix4d::Map(a.data()))\<close> on a column-major array of 16, and
  back (\<^verbatim>\<open>pose.matrix()\<close> mapped onto an array; the last row of an isometry built this way
  is the array's own).\<close>

definition isometry_of :: "real list \<Rightarrow> Isometry3d" where
  "isometry_of a =
     \<lparr>linear = ((a ! 0, a ! 4, a ! 8), (a ! 1, a ! 5, a ! 9), (a ! 2, a ! 6, a ! 10)),
      translation = (a ! 12, a ! 13, a ! 14)\<rparr>"

text \<open>The quaternion functions of Eigen are parameters of the Cartesian generator:
  \<^verbatim>\<open>Eigen::Quaterniond(rotation)\<close>, \<^verbatim>\<open>Quaterniond::normalize\<close> and
  \<^verbatim>\<open>Quaterniond::toRotationMatrix\<close>. A quaternion is stored as \<open>(x, y, z, w)\<close>.\<close>

record Eigen =
  quaternion_of :: "mat3 \<Rightarrow> quat"
  normalize :: "quat \<Rightarrow> quat"
  toRotationMatrix :: "quat \<Rightarrow> mat3"

subsection \<open>Types of this repository\<close>

text \<open>\<^verbatim>\<open>Panda\<close> (\<^verbatim>\<open>panda.h\<close> is not among the sources): the session's scale factors, the
  last robot state handed to \<^verbatim>\<open>_setState\<close>, and the class constants the profiles read,
  kept as members that no operation changes.\<close>

record Panda =
  velocity_rel :: real
  acceleration_rel :: real
  jerk_rel :: real
  state :: "RobotState option"
  max_joint_velocity :: vec7
  max_joint_acceleration :: vec7
  max_joint_jerk :: vec7
  max_translation_velocity :: real
  max_translation_acceleration :: real
  max_translation_jerk :: real
  max_rotation_velocity :: real
  max_rotation_acceleration :: real
  max_rotation_jerk :: real

definition setState :: "RobotState \<Rightarrow> Panda \<Rightarrow> Panda" where
  "setState robot_state p = p\<lparr>state := Some robot_state\<rparr>"

text \<open>A waypoint: the target and its three profile factors (\<^verbatim>\<open>velocity_rel\<close>,
  \<^verbatim>\<open>acceleration_rel\<close>, \<^verbatim>\<open>jerk_rel\<close>, here with the prefix \<open>motion_\<close> since \<open>Panda\<close> has
  members of the same names). \<^verbatim>\<open>JointMotion\<close> has a joint vector as target,
  \<^verbatim>\<open>CartesianMotion\<close> an isometry and a reference frame.\<close>

record 't Motion =
  target :: 't
  motion_velocity_rel :: real
  motion_acceleration_rel :: real
  motion_jerk_rel :: real

type_synonym JointMotion = "vec7 Motion"

datatype ReferenceFrame = GLOBAL | RELATIVE

record CartesianMotion = "Isometry3d Motion" +
  reference_frame :: ReferenceFrame

text \<open>Modelled from the spec: the constructor \<^verbatim>\<open>JointMotion(target)\<close> of
  \<^verbatim>\<open>motion/joint_motion.hpp\<close>, which is not among the sources. The spec gives each
  profile factor the default 1.0.\<close>

definition JointMotion :: "vec7 \<Rightarrow> JointMotion" where
  "JointMotion t =
     \<lparr>target = t, motion_velocity_rel = 1, motion_acceleration_rel = 1, motion_jerk_rel = 1\<rparr>"

text \<open>Modelled from the spec: the constructor \<^verbatim>\<open>CartesianMotion(pose)\<close> of
  \<^verbatim>\<open>motion/cartesian_motion.hpp\<close>, which is not among the sources. The spec gives each
  profile factor the default 1.0; a pose given without a frame is in the base frame
  (the spec's ABSOLUTE, the binding's \<^verbatim>\<open>GLOBAL\<close>).\<close>

definition CartesianMotion :: "Isometry3d \<Rightarrow> CartesianMotion" where
  "CartesianMotion X =
     \<lparr>target = X, motion_velocity_rel = 1, motion_acceleration_rel = 1, motion_jerk_rel = 1,
      reference_frame = GLOBAL\<rparr>"

text \<open>The members of a generator; both structs declare the same ones. \<open>time\<close> is the
  elapsed-time counter of the base class (\<^verbatim>\<open>getTime\<close>, \<^verbatim>\<open>setTime\<close>). The cooldown counter
  is a \<^verbatim>\<open>size_t\<close> that only grows while it is below 5, so a natural number never wraps.\<close>

record ('w, 's) Generator =
  panda :: Panda
  time :: real
  motion_finished :: bool
  waypoints :: "'w list"
  current_waypoint :: "'w option"
  trajectory_generator :: 's
  input_para :: InputParameter
  output_para :: OutputParameter
  result :: Result
  reload :: bool
  keep_running :: bool
  current_cooldown_iteration :: nat

definition cooldown_iterations :: nat where
  "cooldown_iterations = 5"

text \<open>The constructor sets the members that have an initialiser; the others keep
  whatever \<open>raw\<close>, the memory the object is built in, holds.\<close>

definition construct :: "bool \<Rightarrow> ('w, 's) Generator \<Rightarrow> ('w, 's) Generator" where
  "construct keep raw =
     raw\<lparr>waypoints := [], current_waypoint := None, reload := False, keep_running := keep,
         current_cooldown_iteration := 0\<rparr>"

section \<open>Operations shared by both generators\<close>

definition addWaypoint :: "'w \<Rightarrow> ('w, 's) Generator \<Rightarrow> ('w, 's) Generator" where
  "addWaypoint waypoint g = g\<lparr>waypoints := waypoints g @ [waypoint], reload := True\<rparr>"

definition addWaypoints :: "'w list \<Rightarrow> ('w, 's) Generator \<Rightarrow> ('w, 's) Generator" where
  "addWaypoints ws g = g\<lparr>waypoints := foldl (\<lambda>queue w. queue @ [w]) (waypoints g) ws, reload := True\<rparr>"

fun pop_all :: "'w list \<Rightarrow> 'w list" where
  "pop_all [] = []"
| "pop_all (w # queue) = pop_all queue"

definition clearWaypoints :: "('w, 's) Generator \<Rightarrow> ('w, 's) Generator" where
  "clearWaypoints g = g\<lparr>waypoints := pop_all (waypoints g), reload := True\<rparr>"

definition stop :: "('w, 's) Generator \<Rightarrow> ('w, 's) Generator" where
  "stop g = g\<lparr>motion_finished := True\<rparr>"

definition isRunning :: "('w, 's) Generator \<Rightarrow> bool" where
  "isRunning g = (\<not> motion_finished g)"

text \<open>\<^verbatim>\<open>const int steps = std::max<int>(period.toMSec(), 1)\<close>: the 64-bit count is converted
  to a 32-bit \<^verbatim>\<open>int\<close> before the maximum is taken.\<close>

definition steps_of :: "Duration \<Rightarrow> int" where
  "steps_of period = max (sint (ucast (toMSec period) :: 32 word)) 1"

text \<open>The solver call of a sub-step: \<^verbatim>\<open>result = trajectory_generator_.update(input_para_,
  output_para_)\<close>.\<close>

definition update :: "'s otg \<Rightarrow> ('w, 's) Generator \<Rightarrow> ('w, 's) Generator" where
  "update otg g =
     (case otg (trajectory_generator g) (input_para g) (output_para g) of
        (r, s, out) \<Rightarrow> g\<lparr>trajectory_generator := s, output_para := out, result := r\<rparr>)"

definition pass :: "('w, 's) Generator \<Rightarrow> ('w, 's) Generator" where
  "pass g = g\<lparr>input_para := pass_to_input (output_para g) (input_para g)\<rparr>"

section \<open>JointMotionGenerator\<close>

definition setProfile ::
  "real \<Rightarrow> real \<Rightarrow> real \<Rightarrow> (JointMotion, 's) Generator \<Rightarrow> (JointMotion, 's) Generator" where
  "setProfile vel acc jerk g =
     g\<lparr>input_para := (input_para g)
        \<lparr>max_velocity :=
           map (\<lambda>dof. max_joint_velocity (panda g) ! dof * velocity_rel (panda g) * vel) [0..<7],
         max_acceleration :=
           map (\<lambda>dof. 0.3 * max_joint_acceleration (panda g) ! dof * acceleration_rel (panda g) * acc)
             [0..<7],
         max_jerk :=
           map (\<lambda>dof. 0.3 * max_joint_jerk (panda g) ! dof * jerk_rel (panda g) * jerk) [0..<7]\<rparr>\<rparr>"

definition setInputCurrent ::
  "RobotState \<Rightarrow> (JointMotion, 's) Generator \<Rightarrow> (JointMotion, 's) Generator" where
  "setInputCurrent robot_state g =
     g\<lparr>input_para := (input_para g)
        \<lparr>current_position := q robot_state,
         current_velocity := zero7,
         current_acceleration := zero7\<rparr>\<rparr>"

definition setInputTarget ::
  "JointMotion \<Rightarrow> (JointMotion, 's) Generator \<Rightarrow> (JointMotion, 's) Generator" where
  "setInputTarget waypoint g =
     setProfile (motion_velocity_rel waypoint) (motion_acceleration_rel waypoint)
       (motion_jerk_rel waypoint)
       (g\<lparr>input_para := (input_para g)
          \<lparr>target_position := target waypoint,
           target_velocity := zero7,
           target_acceleration := zero7\<rparr>\<rparr>)"

definition loadNextWaypoint ::
  "RobotState \<Rightarrow> (JointMotion, 's) Generator \<Rightarrow> (JointMotion, 's) Generator" where
  "loadNextWaypoint robot_state g =
     (case waypoints g of
        [] \<Rightarrow> setInputTarget (JointMotion (q_d robot_state))
                (g\<lparr>current_waypoint := Some (JointMotion (q_d robot_state))\<rparr>)
      | w # queue \<Rightarrow> setInputTarget w (g\<lparr>current_waypoint := Some w, waypoints := queue\<rparr>))"

definition start ::
  "Panda \<Rightarrow> RobotState \<Rightarrow> (JointMotion, 's) Generator \<Rightarrow> (JointMotion, 's) Generator" where
  "start robot robot_state g =
     (let g1 = g\<lparr>panda := robot, reload := True, motion_finished := False\<rparr>;
          g2 = setInputCurrent robot_state g1;
          g3 = g2\<lparr>input_para := (input_para g2)
                 \<lparr>target_position := q_d robot_state,
                  target_velocity := zero7,
                  target_acceleration := zero7\<rparr>\<rparr>
      in setProfile 1 1 1 g3)"

text \<open>One pass through the body of the \<^verbatim>\<open>for\<close> loop of \<^verbatim>\<open>step\<close>: \<open>Inl\<close> is a \<^verbatim>\<open>return\<close>
  from inside the loop, \<open>Inr\<close> the state the next pass starts from.\<close>

definition sub_step ::
  "'s otg \<Rightarrow> RobotState \<Rightarrow> (JointMotion, 's) Generator \<Rightarrow>
     (vec7 Finishable \<times> (JointMotion, 's) Generator) + (JointMotion, 's) Generator" where
  "sub_step otg robot_state g =
     (let g1 = (if reload g then (loadNextWaypoint robot_state g)\<lparr>reload := False\<rparr> else g);
          g2 = update otg g1
      in if result g2 = Finished then
           (if waypoints g2 \<noteq> [] then Inr (pass (g2\<lparr>reload := True\<rparr>))
            else if \<not> keep_running g2 then
              (if current_cooldown_iteration g2 < cooldown_iterations then
                 Inl (Command (new_position (output_para g2)),
                      g2\<lparr>current_cooldown_iteration := current_cooldown_iteration g2 + 1\<rparr>)
               else
                 Inl (MotionFinished (new_position (output_para g2)),
                      g2\<lparr>motion_finished := True\<rparr>))
            else Inr (pass g2))
         else if result g2 = Error then
           Inl (MotionFinished (new_position (output_para g2)), g2\<lparr>motion_finished := True\<rparr>)
         else Inr (pass g2))"

fun sub_steps ::
  "'s otg \<Rightarrow> RobotState \<Rightarrow> nat \<Rightarrow> (JointMotion, 's) Generator \<Rightarrow>
     vec7 Finishable \<times> (JointMotion, 's) Generator" where
  "sub_steps otg robot_state 0 g = (Command (new_position (output_para g)), g)"
| "sub_steps otg robot_state (Suc n) g =
     (case sub_step otg robot_state g of
        Inl r \<Rightarrow> r
      | Inr g' \<Rightarrow> sub_steps otg robot_state n g')"

definition step ::
  "'s otg \<Rightarrow> RobotState \<Rightarrow> Duration \<Rightarrow> (JointMotion, 's) Generator \<Rightarrow>
     vec7 Finishable \<times> (JointMotion, 's) Generator" where
  "step otg robot_state period g =
     (let g0 = g\<lparr>panda := setState robot_state (panda g), time := time g + toSec period\<rparr>
      in if motion_finished g0 then
           (if current_cooldown_iteration g0 < cooldown_iterations then
              (Command (q_d robot_state),
               g0\<lparr>current_cooldown_iteration := current_cooldown_iteration g0 + 1\<rparr>)
            else (MotionFinished (q_d robot_state), g0))
         else sub_steps otg robot_state (nat (steps_of period)) g0)"

section \<open>CartesianMotionGenerator\<close>

text \<open>The seven solver coordinates of a pose: the translation, then the quaternion
  \<open>x, y, z, w\<close>. The source assigns the seven entries one by one.\<close>

fun pose_vector :: "vec3 \<Rightarrow> quat \<Rightarrow> vec7" where
  "pose_vector (tx, ty, tz) (qx, qy, qz, qw) = [tx, ty, tz, qx, qy, qz, qw]"

definition cartesian_setProfile ::
  "real \<Rightarrow> real \<Rightarrow> real \<Rightarrow> (CartesianMotion, 's) Generator \<Rightarrow> (CartesianMotion, 's) Generator"
  where
  "cartesian_setProfile vel acc jerk g =
     (let translation_factor = 0.4; derivative_factor = 0.4; quat_factor = 0.5
      in g\<lparr>input_para := (input_para g)
        \<lparr>max_velocity :=
           replicate 3 (0.8 * translation_factor * max_translation_velocity (panda g)
                          * velocity_rel (panda g) * vel)
           @ replicate 4 (quat_factor * max_rotation_velocity (panda g)
                          * velocity_rel (panda g) * vel),
         max_acceleration :=
           replicate 3 (0.3 * translation_factor * derivative_factor
                          * max_translation_acceleration (panda g)
                          * acceleration_rel (panda g) * acc)
           @ replicate 4 (quat_factor * 0.3 * max_rotation_acceleration (panda g)
                          * acceleration_rel (panda g) * acc),
         max_jerk :=
           replicate 3 (0.3 * translation_factor * derivative_factor
                          * max_translation_jerk (panda g) * jerk_rel (panda g) * jerk)
           @ replicate 4 (quat_factor * 0.3 * max_rotation_jerk (panda g)
                          * jerk_rel (panda g) * jerk)\<rparr>\<rparr>)"

definition cartesian_setInputCurrent ::
  "Eigen \<Rightarrow> RobotState \<Rightarrow> (CartesianMotion, 's) Generator \<Rightarrow> (CartesianMotion, 's) Generator"
  where
  "cartesian_setInputCurrent E robot_state g =
     (let X_WE = isometry_of (O_T_EE robot_state)
      in g\<lparr>input_para := (input_para g)
        \<lparr>current_position := pose_vector (translation X_WE) (quaternion_of E (linear X_WE)),
         current_velocity := zero7,
         current_acceleration := zero7\<rparr>\<rparr>)"

definition cartesian_setInputTarget ::
  "Eigen \<Rightarrow> RobotState \<Rightarrow> CartesianMotion \<Rightarrow> (CartesianMotion, 's) Generator \<Rightarrow>
     (CartesianMotion, 's) Generator" where
  "cartesian_setInputTarget E robot_state waypoint g =
     (let X_WE_target =
            (if reference_frame waypoint = RELATIVE
             then compose (isometry_of (O_T_EE robot_state)) (target waypoint)
             else target waypoint)
      in cartesian_setProfile (motion_velocity_rel waypoint) (motion_acceleration_rel waypoint)
           (motion_jerk_rel waypoint)
           (g\<lparr>input_para := (input_para g)
              \<lparr>target_position :=
                 pose_vector (translation X_WE_target)
                   (normalize E (quaternion_of E (linear X_WE_target))),
               target_velocity := zero7,
               target_acceleration := zero7\<rparr>\<rparr>))"

definition cartesian_loadNextWaypoint ::
  "Eigen \<Rightarrow> RobotState \<Rightarrow> (CartesianMotion, 's) Generator \<Rightarrow> (CartesianMotion, 's) Generator"
  where
  "cartesian_loadNextWaypoint E robot_state g =
     (case waypoints g of
        [] \<Rightarrow>
          cartesian_setInputTarget E robot_state
            (CartesianMotion (isometry_of (O_T_EE_c robot_state)))
            (g\<lparr>current_waypoint := Some (CartesianMotion (isometry_of (O_T_EE_c robot_state)))\<rparr>)
      | w # queue \<Rightarrow>
          cartesian_setInputTarget E robot_state w
            (g\<lparr>current_waypoint := Some w, waypoints := queue\<rparr>))"

text \<open>\<^verbatim>\<open>getPoseFromOutput\<close>: the commanded pose with its translation and rotation replaced
  by the solver's output, as a column-major array. The last row is the one of
  \<^verbatim>\<open>O_T_EE_c\<close>.\<close>

definition getPoseFromOutput :: "Eigen \<Rightarrow> RobotState \<Rightarrow> OutputParameter \<Rightarrow> real list" where
  "getPoseFromOutput E robot_state out =
     (let a = O_T_EE_c robot_state;
          p = new_position out
      in case toRotationMatrix E (normalize E (p ! 3, p ! 4, p ! 5, p ! 6)) of
           ((r11, r12, r13), (r21, r22, r23), (r31, r32, r33)) \<Rightarrow>
             [r11, r21, r31, a ! 3,
              r12, r22, r32, a ! 7,
              r13, r23, r33, a ! 11,
              p ! 0, p ! 1, p ! 2, a ! 15])"

definition cartesian_start ::
  "Eigen \<Rightarrow> Panda \<Rightarrow> RobotState \<Rightarrow> (CartesianMotion, 's) Generator \<Rightarrow>
     (CartesianMotion, 's) Generator" where
  "cartesian_start E robot robot_state g =
     (let g1 = g\<lparr>panda := robot, reload := True, motion_finished := False\<rparr>;
          g2 = cartesian_setInputCurrent E robot_state g1;
          O_T_EE' = isometry_of (O_T_EE robot_state);
          g3 = g2\<lparr>input_para := (input_para g2)
                 \<lparr>target_position :=
                    pose_vector (translation O_T_EE') (quaternion_of E (linear O_T_EE')),
                  target_velocity := zero7,
                  target_acceleration := zero7\<rparr>\<rparr>
      in cartesian_setProfile 1 1 1 g3)"

definition cartesian_sub_step ::
  "Eigen \<Rightarrow> 's otg \<Rightarrow> RobotState \<Rightarrow> (CartesianMotion, 's) Generator \<Rightarrow>
     (real list Finishable \<times> (CartesianMotion, 's) Generator) + (CartesianMotion, 's) Generator"
  where
  "cartesian_sub_step E otg robot_state g =
     (let g1 = (if reload g then (cartesian_loadNextWaypoint E robot_state g)\<lparr>reload := False\<rparr>
                else g);
          g2 = update otg g1
      in if result g2 = Finished then
           (if waypoints g2 \<noteq> [] then Inr (pass (g2\<lparr>reload := True\<rparr>))
            else if \<not> keep_running g2 then
              (if current_cooldown_iteration g2 < cooldown_iterations then
                 Inl (Command (getPoseFromOutput E robot_state (output_para g2)),
                      g2\<lparr>current_cooldown_iteration := current_cooldown_iteration g2 + 1\<rparr>)
               else
                 Inl (MotionFinished (getPoseFromOutput E robot_state (output_para g2)),
                      g2\<lparr>motion_finished := True\<rparr>))
            else Inr (pass g2))
         else if result g2 \<noteq> Working then
           Inl (MotionFinished (O_T_EE_c robot_state), g2\<lparr>motion_finished := True\<rparr>)
         else Inr (pass g2))"

fun cartesian_sub_steps ::
  "Eigen \<Rightarrow> 's otg \<Rightarrow> RobotState \<Rightarrow> nat \<Rightarrow> (CartesianMotion, 's) Generator \<Rightarrow>
     real list Finishable \<times> (CartesianMotion, 's) Generator" where
  "cartesian_sub_steps E otg robot_state 0 g =
     (Command (getPoseFromOutput E robot_state (output_para g)), g)"
| "cartesian_sub_steps E otg robot_state (Suc n) g =
     (case cartesian_sub_step E otg robot_state g of
        Inl r \<Rightarrow> r
      | Inr g' \<Rightarrow> cartesian_sub_steps E otg robot_state n g')"

definition cartesian_step ::
  "Eigen \<Rightarrow> 's otg \<Rightarrow> RobotState \<Rightarrow> Duration \<Rightarrow> (CartesianMotion, 's) Generator \<Rightarrow>
     real list Finishable \<times> (CartesianMotion, 's) Generator" where
  "cartesian_step E otg robot_state period g =
     (let g0 = g\<lparr>panda := setState robot_state (panda g), time := time g + toSec period\<rparr>
      in if motion_finished g0 then
           (if current_cooldown_iteration g0 < cooldown_iterations then
              (Command (O_T_EE_c robot_state),
               g0\<lparr>current_cooldown_iteration := current_cooldown_iteration g0 + 1\<rparr>)
            else (MotionFinished (O_T_EE_c robot_state), g0))
         else cartesian_sub_steps E otg robot_state (nat (steps_of period)) g0)"

section \<open>Sessions: the calls a generator receives\<close>

text \<open>A session is the sequence of calls made on one generator, by the caller's thread
  and by the real-time link, in the order they take effect. \<open>run\<close> returns the commands
  the \<^verbatim>\<open>step\<close> calls gave back, oldest first, and the final state.\<close>

datatype 'w Call =
    AddWaypoint 'w
  | AddWaypoints "'w list"
  | ClearWaypoints
  | Start Panda RobotState
  | Stop
  | Step RobotState Duration

fun call ::
  "'s otg \<Rightarrow> JointMotion Call \<Rightarrow> (JointMotion, 's) Generator \<Rightarrow>
     vec7 Finishable list \<times> (JointMotion, 's) Generator" where
  "call otg (AddWaypoint w) g = ([], addWaypoint w g)"
| "call otg (AddWaypoints ws) g = ([], addWaypoints ws g)"
| "call otg ClearWaypoints g = ([], clearWaypoints g)"
| "call otg (Start robot robot_state) g = ([], start robot robot_state g)"
| "call otg Stop g = ([], stop g)"
| "call otg (Step robot_state period) g =
     (case step otg robot_state period g of (c, g') \<Rightarrow> ([c], g'))"

fun run ::
  "'s otg \<Rightarrow> JointMotion Call list \<Rightarrow> (JointMotion, 's) Generator \<Rightarrow>
     vec7 Finishable list \<times> (JointMotion, 's) Generator" where
  "run otg [] g = ([], g)"
| "run otg (c # cs) g =
     (case call otg c g of (out, g') \<Rightarrow>
        (case run otg cs g' of (outs, g'') \<Rightarrow> (out @ outs, g'')))"

fun cartesian_call ::
  "Eigen \<Rightarrow> 's otg \<Rightarrow> CartesianMotion Call \<Rightarrow> (CartesianMotion, 's) Generator \<Rightarrow>
     real list Finishable list \<times> (CartesianMotion, 's) Generator" where
  "cartesian_call E otg (AddWaypoint w) g = ([], addWaypoint w g)"
| "cartesian_call E otg (AddWaypoints ws) g = ([], addWaypoints ws g)"
| "cartesian_call E otg ClearWaypoints g = ([], clearWaypoints g)"
| "cartesian_call E otg (Start robot robot_state) g = ([], cartesian_start E robot robot_state g)"
| "cartesian_call E otg Stop g = ([], stop g)"
| "cartesian_call E otg (Step robot_state period) g =
     (case cartesian_step E otg robot_state period g of (c, g') \<Rightarrow> ([c], g'))"

fun cartesian_run ::
  "Eigen \<Rightarrow> 's otg \<Rightarrow> CartesianMotion Call list \<Rightarrow> (CartesianMotion, 's) Generator \<Rightarrow>
     real list Finishable list \<times> (CartesianMotion, 's) Generator" where
  "cartesian_run E otg [] g = ([], g)"
| "cartesian_run E otg (c # cs) g =
     (case cartesian_call E otg c g of (out, g') \<Rightarrow>
        (case cartesian_run E otg cs g' of (outs, g'') \<Rightarrow> (out @ outs, g'')))"

section \<open>Reading the outcome of a sub-step\<close>

text \<open>The generator state a pass through the loop body leaves behind, whether the pass
  returned from \<^verbatim>\<open>step\<close> or fell through to the next pass.\<close>

definition after :: "('c \<times> 'g) + 'g \<Rightarrow> 'g" where
  "after r = (case r of Inl (c, g) \<Rightarrow> g | Inr g \<Rightarrow> g)"

text \<open>The solver coordinates of the commanded pose of a robot state.\<close>

definition hold_pose :: "Eigen \<Rightarrow> RobotState \<Rightarrow> vec7" where
  "hold_pose E rs =
     pose_vector (translation (isometry_of (O_T_EE_c rs)))
       (normalize E (quaternion_of E (linear (isometry_of (O_T_EE_c rs)))))"

section \<open>Example sessions\<close>

text \<open>Concrete inputs for the sessions evaluated below. The robot has unit limits and
  unit scale factors. The example solvers keep a count of their calls as their state:
  \<open>otg_reach\<close> reports the target reached at once, \<open>otg_moving\<close> reports a segment
  still under way, \<open>otg_invalid\<close> rejects its input.\<close>

definition unit_panda :: Panda where
  "unit_panda =
     \<lparr>velocity_rel = 1, acceleration_rel = 1, jerk_rel = 1, state = None,
      max_joint_velocity = replicate 7 1, max_joint_acceleration = replicate 7 1,
      max_joint_jerk = replicate 7 1,
      max_translation_velocity = 1, max_translation_acceleration = 1, max_translation_jerk = 1,
      max_rotation_velocity = 1, max_rotation_acceleration = 1, max_rotation_jerk = 1\<rparr>"

definition blank_input :: InputParameter where
  "blank_input =
     \<lparr>current_position = zero7, current_velocity = zero7, current_acceleration = zero7,
      target_position = zero7, target_velocity = zero7, target_acceleration = zero7,
      max_velocity = zero7, max_acceleration = zero7, max_jerk = zero7\<rparr>"

definition blank_output :: OutputParameter where
  "blank_output = \<lparr>new_position = zero7, new_velocity = zero7, new_acceleration = zero7\<rparr>"

definition raw_generator :: "('w, nat) Generator" where
  "raw_generator =
     \<lparr>panda = unit_panda, time = 0, motion_finished = False, waypoints = [],
      current_waypoint = None, trajectory_generator = 0, input_para = blank_input,
      output_para = blank_output, result = Working, reload = False, keep_running = False,
      current_cooldown_iteration = 0\<rparr>"

definition otg_reach :: "nat otg" where
  "otg_reach s inp out =
     (Finished, Suc s,
      \<lparr>new_position = target_position inp, new_velocity = target_velocity inp,
       new_acceleration = target_acceleration inp\<rparr>)"

definition otg_moving :: "nat otg" where
  "otg_moving s inp out =
     (Working, Suc s,
      \<lparr>new_position = current_position inp, new_velocity = current_velocity inp,
       new_acceleration = current_acceleration inp\<rparr>)"

definition otg_invalid :: "nat otg" where
  "otg_invalid s inp out = (ErrorInvalidInput, Suc s, out)"

text \<open>Poses without rotation: the identity matrix, a pure translation as an isometry
  and as the column-major array of a robot state.\<close>

definition identity3 :: mat3 where
  "identity3 = ((1, 0, 0), (0, 1, 0), (0, 0, 1))"

definition shift :: "vec3 \<Rightarrow> Isometry3d" where
  "shift v = \<lparr>linear = identity3, translation = v\<rparr>"

fun shift_array :: "vec3 \<Rightarrow> real list" where
  "shift_array (x, y, z) = [1, 0, 0, 0,  0, 1, 0, 0,  0, 0, 1, 0,  x, y, z, 1]"

text \<open>On the identity rotation and the unit quaternion \<open>(0, 0, 0, 1)\<close> Eigen's three
  quaternion functions return what \<open>plain_eigen\<close> does; the example sessions use no other
  rotation.\<close>

definition plain_eigen :: Eigen where
  "plain_eigen =
     \<lparr>quaternion_of = (\<lambda>R. (0, 0, 0, 1)), normalize = (\<lambda>v. v),
      toRotationMatrix = (\<lambda>v. identity3)\<rparr>"

text \<open>A robot at rest at the origin, and a robot that lags its command: measured
  halfway, commanded at 1.\<close>

definition rest_state :: RobotState where
  "rest_state =
     \<lparr>q = zero7, q_d = zero7,
      O_T_EE = shift_array (0, 0, 0), O_T_EE_c = shift_array (0, 0, 0)\<rparr>"

definition lagging_state :: RobotState where
  "lagging_state =
     \<lparr>q = replicate 7 (1 / 2), q_d = replicate 7 1,
      O_T_EE = shift_array (1 / 2, 0, 0), O_T_EE_c = shift_array (1, 0, 0)\<rparr>"

definition joint_goal :: "real \<Rightarrow> JointMotion" where
  "joint_goal x = JointMotion (replicate 7 x)"

text \<open>A joint generator with a segment in flight: started, given two waypoints, stepped
  once; the first waypoint is loaded and the second is pending.\<close>

definition in_flight :: "(JointMotion, nat) Generator" where
  "in_flight =
     snd (run otg_moving
       [Start unit_panda rest_state, AddWaypoints [joint_goal 1, joint_goal 2], Step rest_state 1]
       (construct False raw_generator))"

text \<open>A generator whose cooldown has run once: started, stopped, stepped until the
  sentinel came back.\<close>

definition exhausted :: "(JointMotion, nat) Generator" where
  "exhausted =
     snd (run otg_moving
       (Start unit_panda rest_state # Stop # replicate 6 (Step rest_state 1))
       (construct False raw_generator))"

definition cartesian_exhausted :: "(CartesianMotion, nat) Generator" where
  "cartesian_exhausted =
     snd (cartesian_run plain_eigen otg_moving
       (Start unit_panda rest_state # Stop # replicate 6 (Step rest_state 1))
       (construct False raw_generator))"

text \<open>Two Cartesian waypoints: a pose one unit along x in the base frame, then a
  relative translation of one unit along z. \<open>first_reached\<close> is the Cartesian generator
  after the step in which the solver reports the first of them reached.\<close>

definition first_goal :: CartesianMotion where
  "first_goal = CartesianMotion (shift (1, 0, 0))"

definition relative_goal :: CartesianMotion where
  "relative_goal = (CartesianMotion (shift (0, 0, 1)))\<lparr>reference_frame := RELATIVE\<rparr>"

definition first_reached :: "(CartesianMotion, nat) Generator" where
  "first_reached =
     snd (cartesian_run plain_eigen otg_reach
       [Start unit_panda rest_state, AddWaypoints [first_goal, relative_goal], Step rest_state 1]
       (construct True raw_generator))"

section \<open>Auxiliary facts\<close>

lemmas fixture_defs = unit_panda_def blank_input_def blank_output_def raw_generator_def
  otg_reach_def otg_moving_def otg_invalid_def rest_state_def lagging_state_def joint_goal_def
  identity3_def shift_def plain_eigen_def in_flight_def exhausted_def cartesian_exhausted_def
  first_goal_def relative_goal_def first_reached_def

lemmas model_defs = construct_def addWaypoint_def addWaypoints_def clearWaypoints_def stop_def
  isRunning_def steps_of_def toMSec_def toSec_def update_def pass_def pass_to_input_def
  setProfile_def setInputCurrent_def setInputTarget_def loadNextWaypoint_def start_def
  sub_step_def step_def setState_def JointMotion_def cooldown_iterations_def zero7_def

lemmas cartesian_defs = cartesian_setProfile_def cartesian_setInputCurrent_def
  cartesian_setInputTarget_def cartesian_loadNextWaypoint_def getPoseFromOutput_def
  cartesian_start_def cartesian_sub_step_def cartesian_step_def CartesianMotion_def
  compose_def isometry_of_def

subsection \<open>Unfolding the loop on a numeral\<close>

lemma sub_steps_numeral:
  "sub_steps otg rs (numeral k) g =
     (case sub_step otg rs g of Inl r \<Rightarrow> r
      | Inr g' \<Rightarrow> sub_steps otg rs (pred_numeral k) g')"
  by (simp add: numeral_eq_Suc)

lemma cartesian_sub_steps_numeral:
  "cartesian_sub_steps E otg rs (numeral k) g =
     (case cartesian_sub_step E otg rs g of Inl r \<Rightarrow> r
      | Inr g' \<Rightarrow> cartesian_sub_steps E otg rs (pred_numeral k) g')"
  by (simp add: numeral_eq_Suc)

subsection \<open>The queue\<close>

lemma push_all: "foldl (\<lambda>queue w. queue @ [w]) xs ws = xs @ ws"
  by (induction ws arbitrary: xs) simp_all

lemma pop_all_empty: "pop_all xs = []"
  by (induction xs) simp_all

subsection \<open>What the parts of a sub-step leave alone\<close>

lemma update_frame [simp]:
  "motion_finished (update otg g) = motion_finished g"
  "keep_running (update otg g) = keep_running g"
  "current_cooldown_iteration (update otg g) = current_cooldown_iteration g"
  "waypoints (update otg g) = waypoints g"
  "current_waypoint (update otg g) = current_waypoint g"
  "reload (update otg g) = reload g"
  "input_para (update otg g) = input_para g"
  "panda (update otg g) = panda g"
  by (simp_all add: update_def split: prod.splits)

lemma pass_input_target [simp]:
  "target_position (pass_to_input out inp) = target_position inp"
  "target_velocity (pass_to_input out inp) = target_velocity inp"
  "target_acceleration (pass_to_input out inp) = target_acceleration inp"
  by (simp_all add: pass_to_input_def)

lemma pass_frame [simp]:
  "motion_finished (pass g) = motion_finished g"
  "keep_running (pass g) = keep_running g"
  "current_cooldown_iteration (pass g) = current_cooldown_iteration g"
  "waypoints (pass g) = waypoints g"
  "current_waypoint (pass g) = current_waypoint g"
  "reload (pass g) = reload g"
  "target_position (input_para (pass g)) = target_position (input_para g)"
  "target_velocity (input_para (pass g)) = target_velocity (input_para g)"
  "target_acceleration (input_para (pass g)) = target_acceleration (input_para g)"
  "panda (pass g) = panda g"
  by (simp_all add: pass_def)

lemma loadNextWaypoint_frame [simp]:
  "motion_finished (loadNextWaypoint rs g) = motion_finished g"
  "keep_running (loadNextWaypoint rs g) = keep_running g"
  "current_cooldown_iteration (loadNextWaypoint rs g) = current_cooldown_iteration g"
  "reload (loadNextWaypoint rs g) = reload g"
  "panda (loadNextWaypoint rs g) = panda g"
  by (simp_all add: loadNextWaypoint_def setInputTarget_def setProfile_def split: list.splits)

lemma loadNextWaypoint_queue [simp]:
  "waypoints (loadNextWaypoint rs g) = tl (waypoints g)"
  "current_waypoint (loadNextWaypoint rs g) =
     Some (case waypoints g of [] \<Rightarrow> JointMotion (q_d rs) | w # queue \<Rightarrow> w)"
  "target_position (input_para (loadNextWaypoint rs g)) =
     target (case waypoints g of [] \<Rightarrow> JointMotion (q_d rs) | w # queue \<Rightarrow> w)"
  "target_velocity (input_para (loadNextWaypoint rs g)) = zero7"
  "target_acceleration (input_para (loadNextWaypoint rs g)) = zero7"
  by (simp_all add: loadNextWaypoint_def setInputTarget_def setProfile_def split: list.splits)

lemma cartesian_loadNextWaypoint_frame [simp]:
  "motion_finished (cartesian_loadNextWaypoint E rs g) = motion_finished g"
  "keep_running (cartesian_loadNextWaypoint E rs g) = keep_running g"
  "current_cooldown_iteration (cartesian_loadNextWaypoint E rs g) = current_cooldown_iteration g"
  "reload (cartesian_loadNextWaypoint E rs g) = reload g"
  "panda (cartesian_loadNextWaypoint E rs g) = panda g"
  by (simp_all add: cartesian_loadNextWaypoint_def cartesian_setInputTarget_def
      cartesian_setProfile_def Let_def split: list.splits)

lemma cartesian_loadNextWaypoint_queue [simp]:
  "waypoints (cartesian_loadNextWaypoint E rs g) = tl (waypoints g)"
  "current_waypoint (cartesian_loadNextWaypoint E rs g) =
     Some (case waypoints g of [] \<Rightarrow> CartesianMotion (isometry_of (O_T_EE_c rs))
           | w # queue \<Rightarrow> w)"
  "target_velocity (input_para (cartesian_loadNextWaypoint E rs g)) = zero7"
  "target_acceleration (input_para (cartesian_loadNextWaypoint E rs g)) = zero7"
  by (simp_all add: cartesian_loadNextWaypoint_def cartesian_setInputTarget_def
      cartesian_setProfile_def Let_def split: list.splits)

lemma cartesian_setInputTarget_position:
  "target_position (input_para (cartesian_setInputTarget E rs w g)) =
     (let X = (if reference_frame w = RELATIVE then compose (isometry_of (O_T_EE rs)) (target w)
               else target w)
      in pose_vector (translation X) (normalize E (quaternion_of E (linear X))))"
  by (simp add: cartesian_setInputTarget_def cartesian_setProfile_def Let_def)

subsection \<open>One sub-step\<close>

lemma sub_step_current_waypoint:
  "current_waypoint (after (sub_step otg rs g)) =
     (if reload g then Some (case waypoints g of [] \<Rightarrow> JointMotion (q_d rs) | w # queue \<Rightarrow> w)
      else current_waypoint g)"
  by (simp add: sub_step_def after_def Let_def)

lemma sub_step_target:
  "target_position (input_para (after (sub_step otg rs g))) =
     (if reload g then target (case waypoints g of [] \<Rightarrow> JointMotion (q_d rs) | w # queue \<Rightarrow> w)
      else target_position (input_para g))"
  "target_velocity (input_para (after (sub_step otg rs g))) =
     (if reload g then zero7 else target_velocity (input_para g))"
  "target_acceleration (input_para (after (sub_step otg rs g))) =
     (if reload g then zero7 else target_acceleration (input_para g))"
  by (simp_all add: sub_step_def after_def Let_def)

lemma sub_step_queue_empty:
  assumes "waypoints g = []"
  shows "waypoints (after (sub_step otg rs g)) = [] \<and> \<not> reload (after (sub_step otg rs g))"
  using assms by (simp add: sub_step_def after_def Let_def)

lemma cartesian_sub_step_current_waypoint:
  "current_waypoint (after (cartesian_sub_step E otg rs g)) =
     (if reload g
      then Some (case waypoints g of [] \<Rightarrow> CartesianMotion (isometry_of (O_T_EE_c rs))
                 | w # queue \<Rightarrow> w)
      else current_waypoint g)"
  by (simp add: cartesian_sub_step_def after_def Let_def)

lemma cartesian_sub_step_target:
  "target_position (input_para (after (cartesian_sub_step E otg rs g))) =
     (if reload g
      then target_position (input_para (cartesian_loadNextWaypoint E rs g))
      else target_position (input_para g))"
  by (simp add: cartesian_sub_step_def after_def Let_def)

lemma cartesian_sub_step_queue_empty:
  assumes "waypoints g = []"
  shows "waypoints (after (cartesian_sub_step E otg rs g)) = [] \<and>
         \<not> reload (after (cartesian_sub_step E otg rs g))"
  using assms by (simp add: cartesian_sub_step_def after_def Let_def)

subsection \<open>The finished flag and the sentinel\<close>

lemma sub_step_finished_flag:
  assumes "\<not> motion_finished g"
  shows "case sub_step otg rs g of
           Inl (c, g') \<Rightarrow> motion_finished g' = is_motion_finished c
         | Inr g' \<Rightarrow> \<not> motion_finished g'"
  using assms by (simp add: sub_step_def Let_def)

lemma sub_steps_finished_flag:
  assumes "\<not> motion_finished g"
  shows "motion_finished (snd (sub_steps otg rs n g)) =
         is_motion_finished (fst (sub_steps otg rs n g))"
  using assms
proof (induction n arbitrary: g)
  case 0
  then show ?case by simp
next
  case (Suc n)
  from sub_step_finished_flag [OF Suc.prems, of otg rs] show ?case
    by (auto split: sum.splits simp: Suc.IH)
qed

lemma cartesian_sub_step_finished_flag:
  assumes "\<not> motion_finished g"
  shows "case cartesian_sub_step E otg rs g of
           Inl (c, g') \<Rightarrow> motion_finished g' = is_motion_finished c
         | Inr g' \<Rightarrow> \<not> motion_finished g'"
  using assms by (simp add: cartesian_sub_step_def Let_def)

lemma cartesian_sub_steps_finished_flag:
  assumes "\<not> motion_finished g"
  shows "motion_finished (snd (cartesian_sub_steps E otg rs n g)) =
         is_motion_finished (fst (cartesian_sub_steps E otg rs n g))"
  using assms
proof (induction n arbitrary: g)
  case 0
  then show ?case by simp
next
  case (Suc n)
  from cartesian_sub_step_finished_flag [OF Suc.prems, of E otg rs] show ?case
    by (auto split: sum.splits simp: Suc.IH)
qed

lemma step_finished_flag:
  "motion_finished (snd (step otg rs period g)) =
     (motion_finished g \<or> is_motion_finished (fst (step otg rs period g)))"
proof (cases "motion_finished g")
  case True
  then show ?thesis by (simp add: step_def Let_def)
next
  case False
  then show ?thesis
    by (simp add: step_def Let_def sub_steps_finished_flag)
qed

lemma cartesian_step_finished_flag:
  "motion_finished (snd (cartesian_step E otg rs period g)) =
     (motion_finished g \<or> is_motion_finished (fst (cartesian_step E otg rs period g)))"
proof (cases "motion_finished g")
  case True
  then show ?thesis by (simp add: cartesian_step_def Let_def)
next
  case False
  then show ?thesis
    by (simp add: cartesian_step_def Let_def cartesian_sub_steps_finished_flag)
qed

subsection \<open>Steps that hold or keep a target\<close>

lemma after_simps [simp]: "after (Inl (c, g)) = g" "after (Inr g) = g"
  by (simp_all add: after_def)

lemma steps_of_Suc: "\<exists>m. nat (steps_of period) = Suc m"
proof -
  have "0 < nat (steps_of period)" by (simp add: steps_of_def)
  then show ?thesis by (simp add: gr0_conv_Suc)
qed

lemma sub_steps_idle:
  assumes "waypoints g = []" and "\<not> reload g"
  shows "target_position (input_para (snd (sub_steps otg rs n g))) = target_position (input_para g) \<and>
         current_waypoint (snd (sub_steps otg rs n g)) = current_waypoint g"
  using assms
proof (induction n arbitrary: g)
  case 0
  then show ?case by simp
next
  case (Suc n)
  show ?case
  proof (cases "sub_step otg rs g")
    case (Inl r)
    obtain c g' where r: "r = (c, g')" by (cases r)
    from sub_step_target(1) [of otg rs g] sub_step_current_waypoint [of otg rs g] Suc.prems Inl r
    show ?thesis by simp
  next
    case (Inr g')
    from sub_step_queue_empty [OF Suc.prems(1), of otg rs] Inr
    have "waypoints g' = []" "\<not> reload g'" by simp_all
    from Suc.IH [OF this]
      sub_step_target(1) [of otg rs g] sub_step_current_waypoint [of otg rs g] Suc.prems Inr
    show ?thesis by simp
  qed
qed

lemma sub_steps_hold:
  assumes "waypoints g = []" and "reload g"
  shows "target_position (input_para (snd (sub_steps otg rs (Suc n) g))) = q_d rs \<and>
         current_waypoint (snd (sub_steps otg rs (Suc n) g)) = Some (JointMotion (q_d rs))"
proof (cases "sub_step otg rs g")
  case (Inl r)
  obtain c g' where r: "r = (c, g')" by (cases r)
  from sub_step_target(1) [of otg rs g] sub_step_current_waypoint [of otg rs g] assms Inl r
  show ?thesis by (simp add: JointMotion_def)
next
  case (Inr g')
  from sub_step_queue_empty [OF assms(1), of otg rs] Inr
  have "waypoints g' = []" "\<not> reload g'" by simp_all
  from sub_steps_idle [OF this, of otg rs n]
    sub_step_target(1) [of otg rs g] sub_step_current_waypoint [of otg rs g] assms Inr
  show ?thesis by (simp add: JointMotion_def)
qed

lemma cartesian_sub_steps_idle:
  assumes "waypoints g = []" and "\<not> reload g"
  shows "target_position (input_para (snd (cartesian_sub_steps E otg rs n g))) =
           target_position (input_para g) \<and>
         current_waypoint (snd (cartesian_sub_steps E otg rs n g)) = current_waypoint g"
  using assms
proof (induction n arbitrary: g)
  case 0
  then show ?case by simp
next
  case (Suc n)
  show ?case
  proof (cases "cartesian_sub_step E otg rs g")
    case (Inl r)
    obtain c g' where r: "r = (c, g')" by (cases r)
    from cartesian_sub_step_target [of E otg rs g]
      cartesian_sub_step_current_waypoint [of E otg rs g] Suc.prems Inl r
    show ?thesis by simp
  next
    case (Inr g')
    from cartesian_sub_step_queue_empty [OF Suc.prems(1), of E otg rs] Inr
    have "waypoints g' = []" "\<not> reload g'" by simp_all
    from Suc.IH [OF this] cartesian_sub_step_target [of E otg rs g]
      cartesian_sub_step_current_waypoint [of E otg rs g] Suc.prems Inr
    show ?thesis by simp
  qed
qed

lemma cartesian_load_hold:
  assumes "waypoints g = []"
  shows "target_position (input_para (cartesian_loadNextWaypoint E rs g)) = hold_pose E rs"
  using assms
  by (simp add: cartesian_loadNextWaypoint_def cartesian_setInputTarget_position
      CartesianMotion_def Let_def hold_pose_def)

lemma cartesian_sub_steps_hold:
  assumes "waypoints g = []" and "reload g"
  shows "target_position (input_para (snd (cartesian_sub_steps E otg rs (Suc n) g))) =
           hold_pose E rs \<and>
         current_waypoint (snd (cartesian_sub_steps E otg rs (Suc n) g)) =
           Some (CartesianMotion (isometry_of (O_T_EE_c rs)))"
proof (cases "cartesian_sub_step E otg rs g")
  case (Inl r)
  obtain c g' where r: "r = (c, g')" by (cases r)
  from cartesian_sub_step_target [of E otg rs g]
    cartesian_sub_step_current_waypoint [of E otg rs g] assms Inl r
  show ?thesis by (simp add: cartesian_load_hold)
next
  case (Inr g')
  from cartesian_sub_step_queue_empty [OF assms(1), of E otg rs] Inr
  have "waypoints g' = []" "\<not> reload g'" by simp_all
  from cartesian_sub_steps_idle [OF this, of E otg rs n]
    cartesian_sub_step_target [of E otg rs g]
    cartesian_sub_step_current_waypoint [of E otg rs g] assms Inr
  show ?thesis by (simp add: cartesian_load_hold)
qed

subsection \<open>A generator that keeps running\<close>

lemma update_result:
  "result (update otg g) = fst (otg (trajectory_generator g) (input_para g) (output_para g))"
  by (simp add: update_def split: prod.splits)

lemma start_flags [simp]:
  "keep_running (start robot rs g) = keep_running g"
  "motion_finished (start robot rs g) = False"
  "reload (start robot rs g) = True"
  "waypoints (start robot rs g) = waypoints g"
  "current_cooldown_iteration (start robot rs g) = current_cooldown_iteration g"
  by (simp_all add: start_def setProfile_def setInputCurrent_def Let_def)

lemma cartesian_start_flags [simp]:
  "keep_running (cartesian_start E robot rs g) = keep_running g"
  "motion_finished (cartesian_start E robot rs g) = False"
  "reload (cartesian_start E robot rs g) = True"
  "waypoints (cartesian_start E robot rs g) = waypoints g"
  "current_cooldown_iteration (cartesian_start E robot rs g) = current_cooldown_iteration g"
  by (simp_all add: cartesian_start_def cartesian_setProfile_def cartesian_setInputCurrent_def
      Let_def)

lemma sub_step_keeps_running:
  assumes "\<forall>s i out. fst (otg s i out) = Working \<or> fst (otg s i out) = Finished"
    and "keep_running g" and "\<not> motion_finished g"
  shows "\<exists>g'. sub_step otg rs g = Inr g' \<and> keep_running g' \<and> \<not> motion_finished g'"
proof -
  define g1 where "g1 = (if reload g then (loadNextWaypoint rs g)\<lparr>reload := False\<rparr> else g)"
  have g1: "keep_running g1" "\<not> motion_finished g1"
    using assms(2,3) by (simp_all add: g1_def)
  from assms(1) have "result (update otg g1) = Working \<or> result (update otg g1) = Finished"
    unfolding update_result by blast
  then show ?thesis
    using g1 unfolding sub_step_def g1_def [symmetric] by (auto simp add: Let_def)
qed

lemma sub_steps_keep_running:
  assumes "\<forall>s i out. fst (otg s i out) = Working \<or> fst (otg s i out) = Finished"
    and "keep_running g" and "\<not> motion_finished g"
  shows "\<not> is_motion_finished (fst (sub_steps otg rs n g)) \<and>
         keep_running (snd (sub_steps otg rs n g)) \<and>
         \<not> motion_finished (snd (sub_steps otg rs n g))"
  using assms(2,3)
proof (induction n arbitrary: g)
  case 0
  then show ?case by simp
next
  case (Suc n)
  from sub_step_keeps_running [OF assms(1) Suc.prems, of rs]
  obtain g' where g': "sub_step otg rs g = Inr g'" "keep_running g'" "\<not> motion_finished g'"
    by blast
  from Suc.IH [OF g'(2,3)] g'(1) show ?case by simp
qed

lemma step_keeps_running:
  assumes "\<forall>s i out. fst (otg s i out) = Working \<or> fst (otg s i out) = Finished"
    and "keep_running g" and "\<not> motion_finished g"
  shows "\<not> is_motion_finished (fst (step otg rs period g)) \<and>
         keep_running (snd (step otg rs period g)) \<and>
         \<not> motion_finished (snd (step otg rs period g))"
proof -
  let ?g0 = "g\<lparr>panda := setState rs (panda g), time := time g + toSec period\<rparr>"
  have "keep_running ?g0" "\<not> motion_finished ?g0" using assms(2,3) by simp_all
  from sub_steps_keep_running [OF assms(1) this, of rs "nat (steps_of period)"] assms(3)
  show ?thesis by (simp add: step_def Let_def)
qed

lemma call_keeps_running:
  assumes "\<forall>s i out. fst (otg s i out) = Working \<or> fst (otg s i out) = Finished"
    and "keep_running g" and "\<not> motion_finished g" and "c \<noteq> Stop"
  shows "list_all (\<lambda>c. \<not> is_motion_finished c) (fst (call otg c g)) \<and>
         keep_running (snd (call otg c g)) \<and> \<not> motion_finished (snd (call otg c g))"
proof (cases c)
  case (Step rs period)
  from step_keeps_running [OF assms(1,2,3), of rs period] Step show ?thesis
    by (simp add: case_prod_beta)
qed (use assms in \<open>simp_all add: addWaypoint_def addWaypoints_def clearWaypoints_def\<close>)

lemma run_keeps_running:
  assumes "\<forall>s i out. fst (otg s i out) = Working \<or> fst (otg s i out) = Finished"
    and "keep_running g" and "\<not> motion_finished g" and "Stop \<notin> set calls"
  shows "list_all (\<lambda>c. \<not> is_motion_finished c) (fst (run otg calls g)) \<and>
         keep_running (snd (run otg calls g)) \<and> \<not> motion_finished (snd (run otg calls g))"
  using assms(2,3,4)
proof (induction calls arbitrary: g)
  case Nil
  then show ?case by simp
next
  case (Cons c calls)
  from Cons.prems have c: "c \<noteq> Stop" and rest: "Stop \<notin> set calls" by auto
  from call_keeps_running [OF assms(1) Cons.prems(1,2) c]
  have here: "list_all (\<lambda>c. \<not> is_motion_finished c) (fst (call otg c g))"
    and inv: "keep_running (snd (call otg c g))" "\<not> motion_finished (snd (call otg c g))"
    by simp_all
  from Cons.IH [OF inv rest] here show ?case
    by (simp add: case_prod_beta)
qed

lemma step_idle:
  assumes "\<not> motion_finished g" and "waypoints g = []" and "\<not> reload g"
  shows "target_position (input_para (snd (step otg rs period g))) =
           target_position (input_para g) \<and>
         current_waypoint (snd (step otg rs period g)) = current_waypoint g"
proof -
  let ?g0 = "g\<lparr>panda := setState rs (panda g), time := time g + toSec period\<rparr>"
  have "waypoints ?g0 = []" "\<not> reload ?g0" using assms(2,3) by simp_all
  from sub_steps_idle [OF this, of otg rs "nat (steps_of period)"] assms(1)
  show ?thesis by (simp add: step_def Let_def)
qed

lemma cartesian_sub_step_keeps_running:
  assumes "\<forall>s i out. fst (otg s i out) = Working \<or> fst (otg s i out) = Finished"
    and "keep_running g" and "\<not> motion_finished g"
  shows "\<exists>g'. cartesian_sub_step E otg rs g = Inr g' \<and> keep_running g' \<and> \<not> motion_finished g'"
proof -
  define g1 where "g1 = (if reload g then (cartesian_loadNextWaypoint E rs g)\<lparr>reload := False\<rparr> else g)"
  have g1: "keep_running g1" "\<not> motion_finished g1"
    using assms(2,3) by (simp_all add: g1_def)
  from assms(1) have "result (update otg g1) = Working \<or> result (update otg g1) = Finished"
    unfolding update_result by blast
  then show ?thesis
    using g1 unfolding cartesian_sub_step_def g1_def [symmetric] by (auto simp add: Let_def)
qed

lemma cartesian_sub_steps_keep_running:
  assumes "\<forall>s i out. fst (otg s i out) = Working \<or> fst (otg s i out) = Finished"
    and "keep_running g" and "\<not> motion_finished g"
  shows "\<not> is_motion_finished (fst (cartesian_sub_steps E otg rs n g)) \<and>
         keep_running (snd (cartesian_sub_steps E otg rs n g)) \<and>
         \<not> motion_finished (snd (cartesian_sub_steps E otg rs n g))"
  using assms(2,3)
proof (induction n arbitrary: g)
  case 0
  then show ?case by simp
next
  case (Suc n)
  from cartesian_sub_step_keeps_running [OF assms(1) Suc.prems, of E rs]
  obtain g' where g': "cartesian_sub_step E otg rs g = Inr g'" "keep_running g'" "\<not> motion_finished g'"
    by blast
  from Suc.IH [OF g'(2,3)] g'(1) show ?case by simp
qed

lemma cartesian_step_keeps_running:
  assumes "\<forall>s i out. fst (otg s i out) = Working \<or> fst (otg s i out) = Finished"
    and "keep_running g" and "\<not> motion_finished g"
  shows "\<not> is_motion_finished (fst (cartesian_step E otg rs period g)) \<and>
         keep_running (snd (cartesian_step E otg rs period g)) \<and>
         \<not> motion_finished (snd (cartesian_step E otg rs period g))"
proof -
  let ?g0 = "g\<lparr>panda := setState rs (panda g), time := time g + toSec period\<rparr>"
  have "keep_running ?g0" "\<not> motion_finished ?g0" using assms(2,3) by simp_all
  from cartesian_sub_steps_keep_running [OF assms(1) this, of E rs "nat (steps_of period)"] assms(3)
  show ?thesis by (simp add: cartesian_step_def Let_def)
qed

lemma cartesian_call_keeps_running:
  assumes "\<forall>s i out. fst (otg s i out) = Working \<or> fst (otg s i out) = Finished"
    and "keep_running g" and "\<not> motion_finished g" and "c \<noteq> Stop"
  shows "list_all (\<lambda>c. \<not> is_motion_finished c) (fst (cartesian_call E otg c g)) \<and>
         keep_running (snd (cartesian_call E otg c g)) \<and> \<not> motion_finished (snd (cartesian_call E otg c g))"
proof (cases c)
  case (Step rs period)
  from cartesian_step_keeps_running [OF assms(1,2,3), of E rs period] Step show ?thesis
    by (simp add: case_prod_beta)
qed (use assms in \<open>simp_all add: addWaypoint_def addWaypoints_def clearWaypoints_def\<close>)

lemma cartesian_run_keeps_running:
  assumes "\<forall>s i out. fst (otg s i out) = Working \<or> fst (otg s i out) = Finished"
    and "keep_running g" and "\<not> motion_finished g" and "Stop \<notin> set calls"
  shows "list_all (\<lambda>c. \<not> is_motion_finished c) (fst (cartesian_run E otg calls g)) \<and>
         keep_running (snd (cartesian_run E otg calls g)) \<and>
         \<not> motion_finished (snd (cartesian_run E otg calls g))"
  using assms(2,3,4)
proof (induction calls arbitrary: g)
  case Nil
  then show ?case by simp
next
  case (Cons c calls)
  from Cons.prems have c: "c \<noteq> Stop" and rest: "Stop \<notin> set calls" by auto
  from cartesian_call_keeps_running [OF assms(1) Cons.prems(1,2) c]
  have here: "list_all (\<lambda>c. \<not> is_motion_finished c) (fst (cartesian_call E otg c g))"
    and inv: "keep_running (snd (cartesian_call E otg c g))"
      "\<not> motion_finished (snd (cartesian_call E otg c g))"
    by simp_all
  from Cons.IH [OF inv rest] here show ?case
    by (simp add: case_prod_beta)
qed

lemma cartesian_step_idle:
  assumes "\<not> motion_finished g" and "waypoints g = []" and "\<not> reload g"
  shows "target_position (input_para (snd (cartesian_step E otg rs period g))) =
           target_position (input_para g) \<and>
         current_waypoint (snd (cartesian_step E otg rs period g)) = current_waypoint g"
proof -
  let ?g0 = "g\<lparr>panda := setState rs (panda g), time := time g + toSec period\<rparr>"
  have "waypoints ?g0 = []" "\<not> reload ?g0" using assms(2,3) by simp_all
  from cartesian_sub_steps_idle [OF this, of E otg rs "nat (steps_of period)"] assms(1)
  show ?thesis by (simp add: cartesian_step_def Let_def)
qed

subsection \<open>A spent cooldown counter\<close>















section \<open>C1: clearing the queue\<close>

text \<open>C1, as stated, fails. The claim says that after \<^verbatim>\<open>clearWaypoints()\<close> the following
  steps continue the segment in flight. In the session \<open>in_flight\<close> the goal at 1 is
  loaded; a step keeps it, but a step after \<^verbatim>\<open>clearWaypoints()\<close> replaces it by a hold
  target at the commanded joint positions (here 0).\<close>

theorem C1_counterexample:
  "current_waypoint in_flight = Some (joint_goal 1) \<and>
   target_position (input_para in_flight) = replicate 7 1 \<and>
   current_waypoint (snd (step otg_moving rest_state 1 in_flight)) = Some (joint_goal 1) \<and>
   target_position (input_para (snd (step otg_moving rest_state 1 in_flight))) = replicate 7 1 \<and>
   current_waypoint (snd (step otg_moving rest_state 1 (clearWaypoints in_flight)))
     = Some (joint_goal 0) \<and>
   target_position (input_para (snd (step otg_moving rest_state 1 (clearWaypoints in_flight))))
     = replicate 7 0 \<and>
   target_position (input_para (snd (step otg_moving rest_state 1 (clearWaypoints in_flight))))
     \<noteq> target_position (input_para in_flight)"
  by (simp add: model_defs fixture_defs Let_def)

text \<open>C1, amended: \<^verbatim>\<open>clearWaypoints()\<close> empties the queue and leaves the current waypoint
  and the solver's input block as they are, but it sets the reload flag; the next step
  of a generator that has not finished therefore replaces the loaded target by a hold
  target at the commanded state of that step's robot state (\<open>q_d\<close>, or the pose
  \<open>O_T_EE_c\<close>), whatever the tick duration.\<close>

theorem C1_clear_replaces_target_by_hold:
  fixes g :: "(JointMotion, 's) Generator" and gc :: "(CartesianMotion, 's) Generator"
  assumes "\<not> motion_finished g" and "\<not> motion_finished gc"
  shows "waypoints (clearWaypoints g) = [] \<and>
         current_waypoint (clearWaypoints g) = current_waypoint g \<and>
         input_para (clearWaypoints g) = input_para g \<and>
         reload (clearWaypoints g) \<and>
         current_waypoint (snd (step otg rs period (clearWaypoints g)))
           = Some (JointMotion (q_d rs)) \<and>
         target_position (input_para (snd (step otg rs period (clearWaypoints g)))) = q_d rs \<and>
         waypoints (clearWaypoints gc) = [] \<and>
         current_waypoint (clearWaypoints gc) = current_waypoint gc \<and>
         input_para (clearWaypoints gc) = input_para gc \<and>
         reload (clearWaypoints gc) \<and>
         current_waypoint (snd (cartesian_step E otg rs period (clearWaypoints gc)))
           = Some (CartesianMotion (isometry_of (O_T_EE_c rs))) \<and>
         target_position (input_para (snd (cartesian_step E otg rs period (clearWaypoints gc))))
           = pose_vector (translation (isometry_of (O_T_EE_c rs)))
               (normalize E (quaternion_of E (linear (isometry_of (O_T_EE_c rs)))))"
proof -
  obtain m where m: "nat (steps_of period) = Suc m"
    using steps_of_Suc by blast
  let ?g0 = "(clearWaypoints g)\<lparr>panda := setState rs (panda (clearWaypoints g)),
                time := time (clearWaypoints g) + toSec period\<rparr>"
  let ?gc0 = "(clearWaypoints gc)\<lparr>panda := setState rs (panda (clearWaypoints gc)),
                time := time (clearWaypoints gc) + toSec period\<rparr>"
  have j: "waypoints ?g0 = []" "reload ?g0"
    by (simp_all add: clearWaypoints_def pop_all_empty)
  have c: "waypoints ?gc0 = []" "reload ?gc0"
    by (simp_all add: clearWaypoints_def pop_all_empty)
  have sj: "step otg rs period (clearWaypoints g) = sub_steps otg rs (Suc m) ?g0"
    using assms(1) m by (simp add: step_def Let_def clearWaypoints_def)
  have sc: "cartesian_step E otg rs period (clearWaypoints gc) =
            cartesian_sub_steps E otg rs (Suc m) ?gc0"
    using assms(2) m by (simp add: cartesian_step_def Let_def clearWaypoints_def)
  from sub_steps_hold [OF j, of otg rs m] cartesian_sub_steps_hold [OF c, of E otg rs m]
  show ?thesis
    unfolding sj sc by (simp add: clearWaypoints_def pop_all_empty hold_pose_def)
qed

text \<open>C1, witness: the generator with a segment in flight has not finished; cleared and
  stepped on the lagging robot (commanded at 1) for two milliseconds, its target is the
  commanded position. The same for a Cartesian generator that was just started.\<close>

theorem C1_witness:
  "\<not> motion_finished in_flight \<and>
   waypoints (clearWaypoints in_flight) = [] \<and>
   target_position (input_para (snd (step otg_reach lagging_state 2 (clearWaypoints in_flight))))
     = replicate 7 1 \<and>
   target_position (input_para (snd (cartesian_step plain_eigen otg_reach lagging_state 2
     (clearWaypoints (cartesian_start plain_eigen unit_panda rest_state
        (construct True raw_generator))))))
     = [1, 0, 0, 0, 0, 0, 1]"
proof -
  let ?gc = "cartesian_start plain_eigen unit_panda rest_state
               (construct True (raw_generator :: (CartesianMotion, nat) Generator))"
  have h: "\<not> motion_finished in_flight" "\<not> motion_finished ?gc"
    by (simp_all add: model_defs fixture_defs Let_def)
  from C1_clear_replaces_target_by_hold [OF h, of otg_reach lagging_state 2 plain_eigen] h
  show ?thesis
    by (simp add: lagging_state_def plain_eigen_def isometry_of_def)
qed

section \<open>C2: enqueuing and the reload flag\<close>

text \<open>C2, as stated, fails. The claim says that \<^verbatim>\<open>addWaypoint\<close> sets the reload flag only if
  the queue was empty, so that a segment in flight is not interrupted. In the session
  \<open>in_flight\<close> the first goal is loaded, the second is pending and the reload flag is
  clear; a step without a new waypoint keeps the first goal, but after
  \<^verbatim>\<open>addWaypoint\<close> the flag is set and the next step replaces the loaded goal by the pending
  one.\<close>

theorem C2_counterexample:
  "waypoints in_flight = [joint_goal 2] \<and>
   current_waypoint in_flight = Some (joint_goal 1) \<and>
   \<not> reload in_flight \<and>
   current_waypoint (snd (step otg_moving rest_state 1 in_flight)) = Some (joint_goal 1) \<and>
   reload (addWaypoint (joint_goal 3) in_flight) \<and>
   current_waypoint (snd (step otg_moving rest_state 1 (addWaypoint (joint_goal 3) in_flight)))
     = Some (joint_goal 2) \<and>
   target_position
     (input_para (snd (step otg_moving rest_state 1 (addWaypoint (joint_goal 3) in_flight))))
     = replicate 7 2"
  by (simp add: model_defs fixture_defs Let_def)

text \<open>C2, amended: \<^verbatim>\<open>addWaypoint\<close> and \<^verbatim>\<open>addWaypoints\<close> append the target(s) to the queue
  under the lock and set the reload flag whatever the queue held, in both generators.
  The lock is held for the whole body of either function, which is here one update of
  the queue and the flag that leaves every other member as it is. The sub-step that
  follows therefore reloads, also when a segment is in flight: it makes the front of the
  resulting queue the current waypoint and, in the joint generator, the solver's
  target. Only when \<^verbatim>\<open>addWaypoints\<close> is given no targets and the queue is empty is there no
  front, and the sub-step loads a hold target at the commanded state.\<close>

theorem C2_enqueue_always_reloads:
  fixes g :: "(JointMotion, 's) Generator" and gc :: "(CartesianMotion, 's) Generator"
  shows "waypoints (addWaypoint w g) = waypoints g @ [w] \<and>
         reload (addWaypoint w g) \<and>
         waypoints (addWaypoints ws g) = waypoints g @ ws \<and>
         reload (addWaypoints ws g) \<and>
         current_waypoint (after (sub_step otg rs (addWaypoint w g)))
           = Some (hd (waypoints g @ [w])) \<and>
         waypoints (addWaypoint wc gc) = waypoints gc @ [wc] \<and>
         reload (addWaypoint wc gc) \<and>
         waypoints (addWaypoints wcs gc) = waypoints gc @ wcs \<and>
         reload (addWaypoints wcs gc) \<and>
         current_waypoint (after (cartesian_sub_step E otg rs (addWaypoint wc gc)))
           = Some (hd (waypoints gc @ [wc])) \<and>
         addWaypoint w g = g\<lparr>waypoints := waypoints g @ [w], reload := True\<rparr> \<and>
         addWaypoints ws g = g\<lparr>waypoints := waypoints g @ ws, reload := True\<rparr> \<and>
         addWaypoint wc gc = gc\<lparr>waypoints := waypoints gc @ [wc], reload := True\<rparr> \<and>
         addWaypoints wcs gc = gc\<lparr>waypoints := waypoints gc @ wcs, reload := True\<rparr> \<and>
         target_position (input_para (after (sub_step otg rs (addWaypoint w g))))
           = target (hd (waypoints g @ [w])) \<and>
         current_waypoint (after (sub_step otg rs (addWaypoints ws g)))
           = Some (case waypoints g @ ws of [] \<Rightarrow> JointMotion (q_d rs)
                   | front # queue \<Rightarrow> front) \<and>
         target_position (input_para (after (sub_step otg rs (addWaypoints ws g))))
           = target (case waypoints g @ ws of [] \<Rightarrow> JointMotion (q_d rs)
                     | front # queue \<Rightarrow> front) \<and>
         current_waypoint (after (cartesian_sub_step E otg rs (addWaypoints wcs gc)))
           = Some (case waypoints gc @ wcs of
                     [] \<Rightarrow> CartesianMotion (isometry_of (O_T_EE_c rs))
                   | front # queue \<Rightarrow> front)"
proof -
  have aj: "addWaypoint w g = g\<lparr>waypoints := waypoints g @ [w], reload := True\<rparr>"
    by (simp add: addWaypoint_def)
  have asj: "addWaypoints ws g = g\<lparr>waypoints := waypoints g @ ws, reload := True\<rparr>"
    by (simp add: addWaypoints_def push_all)
  have ac: "addWaypoint wc gc = gc\<lparr>waypoints := waypoints gc @ [wc], reload := True\<rparr>"
    by (simp add: addWaypoint_def)
  have asc: "addWaypoints wcs gc = gc\<lparr>waypoints := waypoints gc @ wcs, reload := True\<rparr>"
    by (simp add: addWaypoints_def push_all)
  have front: "(case xs @ [x] of [] \<Rightarrow> d | front # queue \<Rightarrow> front) = hd (xs @ [x])"
    for xs :: "'a list" and x d
    by (cases xs) simp_all
  show ?thesis
    unfolding aj asj ac asc
    by (simp add: sub_step_current_waypoint sub_step_target
        cartesian_sub_step_current_waypoint front)
qed

text \<open>C2, the empty batch: \<^verbatim>\<open>addWaypoints\<close> with no targets on a started generator whose
  queue is empty still sets the reload flag, and the next sub-step loads a hold target
  at the commanded joint positions.\<close>

lemma addWaypoints_empty_batch:
  "waypoints (addWaypoints [] (start unit_panda lagging_state
      (construct True (raw_generator :: (JointMotion, nat) Generator)))) = [] \<and>
   reload (addWaypoints [] (start unit_panda lagging_state
      (construct True (raw_generator :: (JointMotion, nat) Generator)))) \<and>
   current_waypoint (after (sub_step otg_moving lagging_state
      (addWaypoints [] (start unit_panda lagging_state (construct True raw_generator)))))
     = Some (JointMotion (replicate 7 1))"
  by (simp add: sub_step_current_waypoint)
     (simp add: model_defs fixture_defs Let_def)

section \<open>C3: solver errors\<close>

text \<open>C3 on the code: the Cartesian generator finishes on every result other than Working
  and Finished, the joint generator only on \<open>Error\<close>.\<close>

lemma cartesian_error_is_fatal:
  assumes "result (update otg (if reload g
             then (cartesian_loadNextWaypoint E rs g)\<lparr>reload := False\<rparr> else g)) \<noteq> Working"
    and "result (update otg (if reload g
             then (cartesian_loadNextWaypoint E rs g)\<lparr>reload := False\<rparr> else g)) \<noteq> Finished"
  shows "\<exists>g'. cartesian_sub_step E otg rs g = Inl (MotionFinished (O_T_EE_c rs), g') \<and>
              motion_finished g'"
  using assms by (simp add: cartesian_sub_step_def Let_def)

lemma joint_error_is_fatal:
  assumes "result (update otg (if reload g
             then (loadNextWaypoint rs g)\<lparr>reload := False\<rparr> else g)) = Error"
  shows "\<exists>c g'. sub_step otg rs g = Inl (MotionFinished c, g') \<and> motion_finished g'"
  using assms by (simp add: sub_step_def Let_def)

lemma joint_other_errors_continue:
  assumes "result (update otg (if reload g
             then (loadNextWaypoint rs g)\<lparr>reload := False\<rparr> else g)) \<notin> {Working, Finished, Error}"
  shows "\<exists>g'. sub_step otg rs g = Inr g' \<and> motion_finished g' = motion_finished g"
  using assms by (simp add: sub_step_def Let_def)

text \<open>C3, the code at the failing input: a joint generator whose solver rejects its input
  (\<open>ErrorInvalidInput\<close>) returns a plain command from a step of three milliseconds,
  is still running afterwards and has called the solver three times; three steps of one
  millisecond do the same. The Cartesian generator, on the same solver, returns the
  sentinel after one solver call.\<close>

theorem C3_joint_ignores_invalid_input:
  "\<not> is_motion_finished (fst (step otg_invalid rest_state 3
       (start unit_panda rest_state (construct False raw_generator)))) \<and>
   isRunning (snd (step otg_invalid rest_state 3
       (start unit_panda rest_state (construct False raw_generator)))) \<and>
   result (snd (step otg_invalid rest_state 3
       (start unit_panda rest_state (construct False raw_generator)))) = ErrorInvalidInput \<and>
   trajectory_generator (snd (step otg_invalid rest_state 3
       (start unit_panda rest_state (construct False raw_generator)))) = 3 \<and>
   map is_motion_finished (fst (run otg_invalid
       [Start unit_panda rest_state, Step rest_state 1, Step rest_state 1, Step rest_state 1]
       (construct False raw_generator))) = [False, False, False] \<and>
   is_motion_finished (fst (cartesian_step plain_eigen otg_invalid rest_state 3
       (cartesian_start plain_eigen unit_panda rest_state (construct False raw_generator)))) \<and>
   trajectory_generator (snd (cartesian_step plain_eigen otg_invalid rest_state 3
       (cartesian_start plain_eigen unit_panda rest_state (construct False raw_generator)))) = 1"
  by (simp add: model_defs cartesian_defs fixture_defs Let_def sub_steps_numeral cartesian_sub_steps_numeral)

section \<open>C4: the cooldown\<close>

text \<open>What holds of the cooldown on the code: once the finished flag is set, a step
  returns the sentinel exactly when the counter has reached the budget, and otherwise
  moves the counter by one; so a run of steps returns as many plain commands as the
  counter is short of the budget at its start (five when the counter starts at 0), and
  the sentinel from then on.\<close>

lemma step_when_finished:
  assumes "motion_finished g"
  shows "is_motion_finished (fst (step otg rs period g)) =
           (cooldown_iterations \<le> current_cooldown_iteration g) \<and>
         motion_finished (snd (step otg rs period g)) \<and>
         current_cooldown_iteration (snd (step otg rs period g)) =
           (if current_cooldown_iteration g < cooldown_iterations
            then current_cooldown_iteration g + 1 else current_cooldown_iteration g)"
  using assms by (simp add: step_def Let_def)

lemma cooldown_after_stop:
  assumes "motion_finished g"
  shows "map is_motion_finished (fst (run otg (map (\<lambda>(rs, period). Step rs period) ticks) g)) =
         replicate (min (length ticks) (cooldown_iterations - current_cooldown_iteration g)) False @
         replicate (length ticks - (cooldown_iterations - current_cooldown_iteration g)) True"
  using assms
proof (induction ticks arbitrary: g)
  case Nil
  then show ?case by simp
next
  case (Cons t ticks)
  obtain rs period where t: "t = (rs, period)" by (cases t)
  let ?g' = "snd (step otg rs period g)"
  note s = step_when_finished [OF Cons.prems, of otg rs period]
  from s have fin: "motion_finished ?g'" by simp
  show ?case
  proof (cases "current_cooldown_iteration g < cooldown_iterations")
    case True
    with s have c: "current_cooldown_iteration ?g' = current_cooldown_iteration g + 1"
      and out: "\<not> is_motion_finished (fst (step otg rs period g))" by simp_all
    from True obtain k where k: "cooldown_iterations - current_cooldown_iteration g = Suc k"
      by (metis Suc_diff_Suc)
    with c have k': "cooldown_iterations - current_cooldown_iteration ?g' = k" by simp
    from Cons.IH [OF fin] out show ?thesis
      by (simp add: t case_prod_beta k k')
  next
    case False
    with s have c: "current_cooldown_iteration ?g' = current_cooldown_iteration g"
      and out: "is_motion_finished (fst (step otg rs period g))" by simp_all
    from False have z: "cooldown_iterations - current_cooldown_iteration g = 0" by simp
    from Cons.IH [OF fin] out show ?thesis
      by (simp add: t case_prod_beta c z replicate_app_Cons_same)
  qed
qed

text \<open>C4, the code at the failing input: a generator that is started, stopped and stepped
  emits five cooldown commands and then the sentinel; started and stopped a second
  time, its first step returns the sentinel with no cooldown command. The same happens
  when the two motions complete by themselves (\<^verbatim>\<open>keep_running = false\<close>, a solver that
  reaches each target at once).\<close>

theorem C4_spent_cooldown_is_skipped:
  "map is_motion_finished (fst (run otg_moving
      (Start unit_panda rest_state # Stop # replicate 6 (Step rest_state 1)
       @ [Start unit_panda rest_state, Stop, Step rest_state 1])
      (construct False raw_generator)))
     = [False, False, False, False, False, True, True] \<and>
   map is_motion_finished (fst (run otg_reach
      (Start unit_panda rest_state # AddWaypoint (joint_goal 1) # replicate 6 (Step rest_state 1)
       @ [Start unit_panda rest_state, AddWaypoint (joint_goal 2), Step rest_state 1])
      (construct False raw_generator)))
     = [False, False, False, False, False, True, True]"
  by (simp add: model_defs fixture_defs Let_def numeral_eq_Suc)

section \<open>C5: relative Cartesian waypoints\<close>

text \<open>C5, as stated, fails. Two waypoints are enqueued, the second relative, one unit
  along z. The solver reports the first pose \<open>(1, 0, 0)\<close> reached; at the next tick the
  robot is commanded there but measured at \<open>(1/2, 0, 0)\<close>. The second target is
  resolved to \<open>(1/2, 0, 1)\<close>, not to the first target composed with the relative
  translation, \<open>(1, 0, 1)\<close>. When both waypoints are loaded within one tick of two
  milliseconds, the second is resolved against the pose the session started from.\<close>

theorem C5_counterexample:
  "result first_reached = Finished \<and>
   new_position (output_para first_reached) = [1, 0, 0, 0, 0, 0, 1] \<and>
   current_waypoint (snd (cartesian_run plain_eigen otg_reach
      [Start unit_panda rest_state, AddWaypoints [first_goal, relative_goal],
       Step rest_state 1, Step lagging_state 1]
      (construct True raw_generator))) = Some relative_goal \<and>
   target_position (input_para (snd (cartesian_run plain_eigen otg_reach
      [Start unit_panda rest_state, AddWaypoints [first_goal, relative_goal],
       Step rest_state 1, Step lagging_state 1]
      (construct True raw_generator)))) = [1 / 2, 0, 1, 0, 0, 0, 1] \<and>
   pose_vector (translation (compose (target first_goal) (target relative_goal)))
     (normalize plain_eigen (quaternion_of plain_eigen
        (linear (compose (target first_goal) (target relative_goal)))))
     = [1, 0, 1, 0, 0, 0, 1] \<and>
   target_position (input_para (snd (cartesian_run plain_eigen otg_reach
      [Start unit_panda rest_state, AddWaypoints [first_goal, relative_goal],
       Step rest_state 1, Step lagging_state 1]
      (construct True raw_generator)))) \<noteq>
   pose_vector (translation (compose (target first_goal) (target relative_goal)))
     (normalize plain_eigen (quaternion_of plain_eigen
        (linear (compose (target first_goal) (target relative_goal))))) \<and>
   target_position (input_para (snd (cartesian_run plain_eigen otg_reach
      [Start unit_panda rest_state, AddWaypoints [first_goal, relative_goal],
       Step rest_state 2]
      (construct True raw_generator)))) = [0, 0, 1, 0, 0, 0, 1]"
  by (simp add: model_defs cartesian_defs fixture_defs Let_def cartesian_sub_steps_numeral)

text \<open>C5, amended: a relative waypoint at the front of the queue is loaded, in the
  sub-step that finds the reload flag set, as the measured pose \<open>O_T_EE\<close> of that step's
  robot state composed with the waypoint's transform: the translation of the product and
  the normalised quaternion of its rotation.\<close>

theorem C5_relative_target_uses_measured_pose:
  assumes "reload g" and "waypoints g = w # queue" and "reference_frame w = RELATIVE"
  shows "current_waypoint (after (cartesian_sub_step E otg rs g)) = Some w \<and>
         target_position (input_para (after (cartesian_sub_step E otg rs g))) =
           pose_vector (translation (compose (isometry_of (O_T_EE rs)) (target w)))
             (normalize E (quaternion_of E
                (linear (compose (isometry_of (O_T_EE rs)) (target w)))))"
  using assms
  by (simp add: cartesian_sub_step_current_waypoint cartesian_sub_step_target
      cartesian_loadNextWaypoint_def cartesian_setInputTarget_position Let_def)

text \<open>C5, witness: the relative waypoint of the example, loaded on the lagging robot.\<close>

theorem C5_witness:
  "reload first_reached \<and> waypoints first_reached = [relative_goal] \<and>
   reference_frame relative_goal = RELATIVE \<and>
   target_position (input_para (after
     (cartesian_sub_step plain_eigen otg_reach lagging_state first_reached)))
     = [1 / 2, 0, 1, 0, 0, 0, 1]"
proof -
  have h: "reload first_reached" "waypoints first_reached = relative_goal # []"
    "reference_frame relative_goal = RELATIVE"
    by (simp_all add: model_defs cartesian_defs fixture_defs Let_def)
  from C5_relative_target_uses_measured_pose [OF h, of plain_eigen otg_reach lagging_state] h
  show ?thesis
    by (simp add: cartesian_defs fixture_defs)
qed

section \<open>C6: start\<close>

text \<open>How \<^verbatim>\<open>start\<close> seeds the solver's input, in general.\<close>

lemma start_seeds:
  "current_position (input_para (start robot rs g)) = q rs \<and>
   current_velocity (input_para (start robot rs g)) = zero7 \<and>
   current_acceleration (input_para (start robot rs g)) = zero7 \<and>
   target_position (input_para (start robot rs g)) = q_d rs \<and>
   target_velocity (input_para (start robot rs g)) = zero7 \<and>
   target_acceleration (input_para (start robot rs g)) = zero7 \<and>
   max_velocity (input_para (start robot rs g)) =
     map (\<lambda>dof. max_joint_velocity robot ! dof * velocity_rel robot * 1) [0..<7] \<and>
   max_acceleration (input_para (start robot rs g)) =
     map (\<lambda>dof. 0.3 * max_joint_acceleration robot ! dof * acceleration_rel robot * 1) [0..<7] \<and>
   max_jerk (input_para (start robot rs g)) =
     map (\<lambda>dof. 0.3 * max_joint_jerk robot ! dof * jerk_rel robot * 1) [0..<7]"
  by (simp add: start_def setInputCurrent_def setProfile_def Let_def)

lemma cartesian_start_seeds:
  "current_position (input_para (cartesian_start E robot rs g)) =
     pose_vector (translation (isometry_of (O_T_EE rs)))
       (quaternion_of E (linear (isometry_of (O_T_EE rs)))) \<and>
   current_velocity (input_para (cartesian_start E robot rs g)) = zero7 \<and>
   current_acceleration (input_para (cartesian_start E robot rs g)) = zero7 \<and>
   target_position (input_para (cartesian_start E robot rs g)) =
     current_position (input_para (cartesian_start E robot rs g)) \<and>
   target_velocity (input_para (cartesian_start E robot rs g)) = zero7 \<and>
   target_acceleration (input_para (cartesian_start E robot rs g)) = zero7"
  by (simp add: cartesian_start_def cartesian_setInputCurrent_def cartesian_setProfile_def
      Let_def)

text \<open>C6, the code at the failing input: on a robot measured at 1/2 and commanded at 1 the
  joint generator's \<^verbatim>\<open>start\<close> seeds the current position with the measured \<open>q\<close> and the
  target with the commanded \<open>q_d\<close>, so the first segment is not of zero displacement;
  the Cartesian generator takes both from the measured pose.\<close>

theorem C6_joint_start_target_is_commanded:
  "current_position (input_para (start unit_panda lagging_state
       (construct False (raw_generator :: (JointMotion, nat) Generator)))) = replicate 7 (1 / 2) \<and>
   target_position (input_para (start unit_panda lagging_state
       (construct False (raw_generator :: (JointMotion, nat) Generator)))) = replicate 7 1 \<and>
   target_position (input_para (start unit_panda lagging_state
       (construct False (raw_generator :: (JointMotion, nat) Generator)))) \<noteq>
   current_position (input_para (start unit_panda lagging_state
       (construct False (raw_generator :: (JointMotion, nat) Generator)))) \<and>
   target_position (input_para (cartesian_start plain_eigen unit_panda lagging_state
       (construct False (raw_generator :: (CartesianMotion, nat) Generator)))) =
   current_position (input_para (cartesian_start plain_eigen unit_panda lagging_state
       (construct False (raw_generator :: (CartesianMotion, nat) Generator))))"
  by (simp add: model_defs cartesian_defs fixture_defs Let_def)

section \<open>C7: a generator that keeps running\<close>

text \<open>C7: a generator constructed with \<^verbatim>\<open>keep_running = true\<close> and started, on which
  \<^verbatim>\<open>stop()\<close> is never called and whose solver only ever reports Working or Finished,
  returns no motion-finished sentinel from any step of the session, whatever waypoints
  are added or cleared in between and however often the queue runs empty; at the end
  of the session it is still running, and a further step on an empty queue keeps the
  target and the waypoint it has (it idles at the last target).\<close>

theorem C7_keep_running_never_finishes:
  fixes raw :: "(JointMotion, 's) Generator" and rawc :: "(CartesianMotion, 's) Generator"
  assumes "\<forall>s i out. fst (otg s i out) = Working \<or> fst (otg s i out) = Finished"
    and "Stop \<notin> set calls" and "Stop \<notin> set ccalls"
  shows "list_all (\<lambda>c. \<not> is_motion_finished c)
           (fst (run otg (Start robot rs # calls) (construct True raw))) \<and>
         isRunning (snd (run otg (Start robot rs # calls) (construct True raw))) \<and>
         (let g = snd (run otg (Start robot rs # calls) (construct True raw))
          in if waypoints g = [] \<and> \<not> reload g
             then target_position (input_para (snd (step otg rs' period g)))
                    = target_position (input_para g) \<and>
                  current_waypoint (snd (step otg rs' period g)) = current_waypoint g
             else True) \<and>
         list_all (\<lambda>c. \<not> is_motion_finished c)
           (fst (cartesian_run E otg (Start robot rs # ccalls) (construct True rawc))) \<and>
         isRunning (snd (cartesian_run E otg (Start robot rs # ccalls) (construct True rawc))) \<and>
         (let g = snd (cartesian_run E otg (Start robot rs # ccalls) (construct True rawc))
          in if waypoints g = [] \<and> \<not> reload g
             then target_position (input_para (snd (cartesian_step E otg rs' period g)))
                    = target_position (input_para g) \<and>
                  current_waypoint (snd (cartesian_step E otg rs' period g)) = current_waypoint g
             else True)"
proof -
  have j: "keep_running (start robot rs (construct True raw))"
          "\<not> motion_finished (start robot rs (construct True raw))"
    by (simp_all add: construct_def)
  have c: "keep_running (cartesian_start E robot rs (construct True rawc))"
          "\<not> motion_finished (cartesian_start E robot rs (construct True rawc))"
    by (simp_all add: construct_def)
  note rj = run_keeps_running [OF assms(1) j assms(2)]
  note rc = cartesian_run_keeps_running [OF assms(1) c assms(3), of E]
  have sj: "run otg (Start robot rs # calls) (construct True raw) =
            run otg calls (start robot rs (construct True raw))"
    by (simp add: case_prod_beta)
  have sc: "cartesian_run E otg (Start robot rs # ccalls) (construct True rawc) =
            cartesian_run E otg ccalls (cartesian_start E robot rs (construct True rawc))"
    by (simp add: case_prod_beta)
  from rj have j1: "list_all (\<lambda>c. \<not> is_motion_finished c)
           (fst (run otg (Start robot rs # calls) (construct True raw)))"
    and j2: "\<not> motion_finished (snd (run otg (Start robot rs # calls) (construct True raw)))"
    unfolding sj by simp_all
  from rc have c1: "list_all (\<lambda>c. \<not> is_motion_finished c)
           (fst (cartesian_run E otg (Start robot rs # ccalls) (construct True rawc)))"
    and c2: "\<not> motion_finished
           (snd (cartesian_run E otg (Start robot rs # ccalls) (construct True rawc)))"
    unfolding sc by simp_all
  from j1 j2 c1 c2 step_idle [OF j2, of otg rs' period]
    cartesian_step_idle [OF c2, of E otg rs' period]
  show ?thesis
    by (simp add: isRunning_def Let_def)
qed

text \<open>C7, witness: with a solver that reaches every target at once, a session that
  enqueues, steps, clears and steps again (the queue empties twice) returns four plain
  commands; so does a Cartesian session of two steps on an empty queue.\<close>

theorem C7_witness:
  "Stop \<notin> set [AddWaypoint (joint_goal 1), Step rest_state 1, Step rest_state 1,
                 ClearWaypoints, Step rest_state 2, Step lagging_state 1] \<and>
   map is_motion_finished
     (fst (run otg_reach
        (Start unit_panda rest_state #
         [AddWaypoint (joint_goal 1), Step rest_state 1, Step rest_state 1,
          ClearWaypoints, Step rest_state 2, Step lagging_state 1])
        (construct True raw_generator))) = [False, False, False, False] \<and>
   map is_motion_finished
     (fst (cartesian_run plain_eigen otg_reach
        (Start unit_panda rest_state # [Step rest_state 1, Step lagging_state 3])
        (construct True raw_generator))) = [False, False]"
proof -
  have otg: "\<forall>s i out. fst (otg_reach s i out) = Working \<or> fst (otg_reach s i out) = Finished"
    by (simp add: otg_reach_def)
  have j: "Stop \<notin> set [AddWaypoint (joint_goal 1), Step rest_state 1, Step rest_state 1,
                 ClearWaypoints, Step rest_state 2, Step lagging_state 1]"
    by simp
  have c: "Stop \<notin> set [Step rest_state 1, Step lagging_state 3 :: CartesianMotion Call]"
    by simp
  have len: "length (fst (run otg_reach
        (Start unit_panda rest_state #
         [AddWaypoint (joint_goal 1), Step rest_state 1, Step rest_state 1,
          ClearWaypoints, Step rest_state 2, Step lagging_state 1])
        (construct True (raw_generator :: (JointMotion, nat) Generator)))) = 4"
    "length (fst (cartesian_run plain_eigen otg_reach
        (Start unit_panda rest_state # [Step rest_state 1, Step lagging_state 3])
        (construct True (raw_generator :: (CartesianMotion, nat) Generator)))) = 2"
    by (simp_all add: case_prod_beta)
  have all_false: "list_all (\<lambda>c. \<not> is_motion_finished c) xs \<Longrightarrow>
      map is_motion_finished xs = replicate (length xs) False" for xs :: "'c Finishable list"
    by (induction xs) simp_all
  from C7_keep_running_never_finishes [OF otg j c, of unit_panda rest_state raw_generator
      rest_state 1 plain_eigen raw_generator]
  show ?thesis
    using j len by (simp only: all_false) (simp add: numeral_eq_Suc)
qed

section \<open>C8: reloading from an empty queue\<close>

text \<open>C8: a sub-step that finds the reload flag set and the queue empty does not fail: it
  makes a hold target of the commanded state the current waypoint and the solver's
  target, with zero target velocity and acceleration. The joint generator takes the
  commanded joint positions \<open>q_d\<close>, the Cartesian one the commanded pose \<open>O_T_EE_c\<close>
  (its translation and the normalised quaternion of its rotation).\<close>

theorem C8_hold_target_when_queue_empty:
  fixes g :: "(JointMotion, 's) Generator" and gc :: "(CartesianMotion, 's) Generator"
  assumes "reload g" and "waypoints g = []" and "reload gc" and "waypoints gc = []"
  shows "current_waypoint (after (sub_step otg rs g)) = Some (JointMotion (q_d rs)) \<and>
         target_position (input_para (after (sub_step otg rs g))) = q_d rs \<and>
         target_velocity (input_para (after (sub_step otg rs g))) = zero7 \<and>
         target_acceleration (input_para (after (sub_step otg rs g))) = zero7 \<and>
         current_waypoint (after (cartesian_sub_step E otg rs gc)) =
           Some (CartesianMotion (isometry_of (O_T_EE_c rs))) \<and>
         target_position (input_para (after (cartesian_sub_step E otg rs gc))) =
           pose_vector (translation (isometry_of (O_T_EE_c rs)))
             (normalize E (quaternion_of E (linear (isometry_of (O_T_EE_c rs))))) \<and>
         target_velocity (input_para (after (cartesian_sub_step E otg rs gc))) = zero7 \<and>
         target_acceleration (input_para (after (cartesian_sub_step E otg rs gc))) = zero7"
  using assms
  by (simp add: sub_step_current_waypoint sub_step_target cartesian_sub_step_current_waypoint
      cartesian_sub_step_target cartesian_loadNextWaypoint_def cartesian_setInputTarget_position
      JointMotion_def CartesianMotion_def Let_def)
     (simp add: cartesian_sub_step_def after_def Let_def)

text \<open>C8, witness: both generators, started on the lagging robot with nothing enqueued,
  hold the commanded state in their first sub-step.\<close>

theorem C8_witness:
  "reload (start unit_panda lagging_state (construct True (raw_generator :: (JointMotion, nat) Generator))) \<and>
   waypoints (start unit_panda lagging_state (construct True (raw_generator :: (JointMotion, nat) Generator))) = [] \<and>
   target_position (input_para (after (sub_step otg_moving lagging_state
     (start unit_panda lagging_state (construct True raw_generator))))) = replicate 7 1 \<and>
   target_position (input_para (after (cartesian_sub_step plain_eigen otg_moving lagging_state
     (cartesian_start plain_eigen unit_panda lagging_state (construct True raw_generator)))))
     = [1, 0, 0, 0, 0, 0, 1]"
proof -
  let ?g = "start unit_panda lagging_state (construct True (raw_generator :: (JointMotion, nat) Generator))"
  let ?gc = "cartesian_start plain_eigen unit_panda lagging_state
               (construct True (raw_generator :: (CartesianMotion, nat) Generator))"
  have h: "reload ?g" "waypoints ?g = []" "reload ?gc" "waypoints ?gc = []"
    by (simp_all add: model_defs cartesian_defs fixture_defs Let_def)
  from C8_hold_target_when_queue_empty [OF h, of otg_moving lagging_state plain_eigen] h
  show ?thesis
    by (simp add: lagging_state_def plain_eigen_def isometry_of_def)
qed

section \<open>C9: isRunning\<close>

text \<open>C9, as stated, fails. The claim says that \<^verbatim>\<open>isRunning()\<close> is true in every state
  before the sentinel has been returned, the cooldown after \<^verbatim>\<open>stop()\<close> included. Right
  after \<^verbatim>\<open>stop()\<close> it is false, while the next five steps still return plain commands
  and only the sixth returns the sentinel.\<close>

theorem C9_counterexample:
  "\<not> isRunning (stop (start unit_panda rest_state
        (construct False (raw_generator :: (JointMotion, nat) Generator)))) \<and>
   map is_motion_finished
     (fst (run otg_moving (replicate 6 (Step rest_state 1))
        (stop (start unit_panda rest_state (construct False raw_generator))))) =
     [False, False, False, False, False, True]"
  by (simp add: model_defs fixture_defs Let_def numeral_eq_Suc)

text \<open>C9, amended: \<^verbatim>\<open>isRunning()\<close> is the negation of the finished flag. It is false as
  soon as \<^verbatim>\<open>stop()\<close> has been called, before any cooldown command is emitted; it is true
  after \<^verbatim>\<open>start\<close>; and a step leaves it true exactly when it was true before and the
  step did not return the sentinel, so without \<^verbatim>\<open>stop()\<close> it stays true through the
  cooldown of a completed motion.\<close>

theorem C9_isRunning_negates_flag:
  fixes g :: "(JointMotion, 's) Generator" and gc :: "(CartesianMotion, 's) Generator"
  shows "isRunning (stop g) = False \<and> isRunning (stop gc) = False \<and>
         isRunning (start robot rs g) = True \<and>
         isRunning (cartesian_start E robot rs gc) = True \<and>
         isRunning (snd (step otg rs period g)) =
           (isRunning g \<and> \<not> is_motion_finished (fst (step otg rs period g))) \<and>
         isRunning (snd (cartesian_step E otg rs period gc)) =
           (isRunning gc \<and> \<not> is_motion_finished (fst (cartesian_step E otg rs period gc)))"
  by (simp add: isRunning_def step_finished_flag cartesian_step_finished_flag)
     (simp add: stop_def start_def cartesian_start_def setProfile_def setInputCurrent_def
       cartesian_setProfile_def cartesian_setInputCurrent_def Let_def)

section \<open>C10: the cooldown counter across restarts\<close>



end
